theory Spec2Isabelle
  imports Main "HOL-Library.Sublist" "HOL-Library.Multiset"
begin

section \<open>Strings, formatting and the escaping helpers\<close>

text \<open>
  Go strings are byte sequences; they are modelled as \<^typ>\<open>string\<close> (a list of 8-bit
  characters).  The three characters the generated SQL treats specially are named once.
\<close>

definition backslash :: char where
  "backslash = CHR 0x5C"

definition squote :: char where
  "squote = CHR 0x27"

definition dquote :: char where
  "dquote = CHR 0x22"

text \<open>
  \<^verbatim>\<open>strings.Replace(s, old, new, -1)\<close> for a non-empty \<open>old\<close>: the non-overlapping
  occurrences of \<open>old\<close> are replaced from left to right.  Every call in the program passes a
  non-empty \<open>old\<close>; for an empty one the model returns the input unchanged.
\<close>

function strings_Replace :: "string \<Rightarrow> string \<Rightarrow> string \<Rightarrow> string" where
  "strings_Replace s old new =
     (if old = [] \<or> s = [] then s
      else if prefix old s then new @ strings_Replace (drop (length old) s) old new
      else hd s # strings_Replace (tl s) old new)"
  by pat_completeness auto
termination
  by (relation "measure (\<lambda>(s, old, new). length s)") (auto simp: prefix_def)

declare strings_Replace.simps [simp del]

text \<open>
  Modelled from the spec: \<^verbatim>\<open>EscapeString\<close> and \<^verbatim>\<open>UnescapeString\<close> are helpers of the
  \<^verbatim>\<open>snowflake\<close> package whose file is not among the sources.  The specification describes
  them as the single shared choke point that escapes quotes and backslashes, says that
  escaping doubles backslashes (\<^verbatim>\<open>\N\<close> is rendered \<^verbatim>\<open>\\N\<close>) and that unescaping is its
  counterpart on DESCRIBE output.  The quote that is escaped is the single quote, the
  delimiter of the literals the NULL_IF list is rendered with; it is escaped by a
  backslash before it.  Unescaping undoes the two replacements.
\<close>

definition EscapeString :: "string \<Rightarrow> string" where
  "EscapeString s =
     strings_Replace (strings_Replace s [backslash] [backslash, backslash])
       [squote] [backslash, squote]"

definition UnescapeString :: "string \<Rightarrow> string" where
  "UnescapeString s =
     strings_Replace (strings_Replace s [backslash, backslash] [backslash])
       [backslash, squote] [squote]"

text \<open>\<^verbatim>\<open>fmt.Sprintf("%v", x)\<close> for a \<^verbatim>\<open>bool\<close> and for an \<^verbatim>\<open>int\<close>.\<close>

definition fmt_bool :: "bool \<Rightarrow> string" where
  "fmt_bool b = (if b then ''true'' else ''false'')"

fun fmt_nat :: "nat \<Rightarrow> string" where
  "fmt_nat n =
     (if n < 10 then [char_of (48 + n)]
      else fmt_nat (n div 10) @ [char_of (48 + n mod 10)])"

declare fmt_nat.simps [simp del]

definition fmt_int :: "int \<Rightarrow> string" where
  "fmt_int i = (if i < 0 then ''-'' @ fmt_nat (nat (- i)) else fmt_nat (nat i))"

section \<open>The statement builder\<close>

text \<open>
  The sources hold the builder in two states of its history.  The one modelled here is
  the complete one (\<^verbatim>\<open>src/unnamed/part_002\<close>, lines 1 to 633), with the 24 properties that
  the resource code in \<^verbatim>\<open>src/pkg/resources/file_format.go\<close> sets and that the package test
  \<^verbatim>\<open>src/pkg/snowflake/file_format_test.go\<close> pins.  The file
  \<^verbatim>\<open>src/pkg/snowflake/file_format.go\<close> is an earlier snapshot with five properties and no
  \<open>set...\<close> flags; its \<^verbatim>\<open>Create\<close> is modelled separately below as \<open>Create_snapshot\<close>.

  \<^verbatim>\<open>FileFormatBuilder\<close>: the qualified name and every configurable property.  Boolean and
  integer properties carry a separate \<open>set...\<close> flag; string properties and the null-if
  list do not.  \<^verbatim>\<open>skipHeader\<close> is a Go \<^verbatim>\<open>int\<close>; the builder only stores and prints it, so it
  is modelled as \<^typ>\<open>int\<close>.
\<close>

record FileFormatBuilder =
  name :: string
  db :: string
  schema :: string
  fileFormatType :: string
  comment :: string
  compression :: string
  setBinaryAsText :: bool
  binaryAsText :: bool
  setTrimSpace :: bool
  trimSpace :: bool
  nullIf :: "string list"
  recordDelimiter :: string
  fieldDelimiter :: string
  fileExtension :: string
  setSkipHeader :: bool
  skipHeader :: int
  setSkipBlankLines :: bool
  skipBlankLines :: bool
  dateFormat :: string
  timeFormat :: string
  timestampFormat :: string
  binaryFormat :: string
  escape :: string
  escapeUnenclosedField :: string
  fieldOptionallyEnclosedBy :: string
  setErrorOnColumnCountMismatch :: bool
  errorOnColumnCountMismatch :: bool
  setReplaceInvalidCharacters :: bool
  replaceInvalidCharacters :: bool
  setValidateUtf8 :: bool
  validateUtf8 :: bool
  setEmptyFieldAsNull :: bool
  emptyFieldAsNull :: bool
  setSkipByteOrderMark :: bool
  skipByteOrderMark :: bool
  encoding :: string

text \<open>
  \<^verbatim>\<open>FileFormat(name, db, schema)\<close>: every other field has Go's zero value (the empty
  string, \<^verbatim>\<open>false\<close>, \<^verbatim>\<open>0\<close>, the nil slice, whose length is 0).
  The program only takes the length of \<^verbatim>\<open>nullIf\<close> and ranges over it, so the nil slice and
  an empty slice are the same list \<open>[]\<close> here.
\<close>

definition FileFormat :: "string \<Rightarrow> string \<Rightarrow> string \<Rightarrow> FileFormatBuilder" where
  "FileFormat n d s =
     \<lparr> name = n, db = d, schema = s,
       fileFormatType = [], comment = [], compression = [],
       setBinaryAsText = False, binaryAsText = False,
       setTrimSpace = False, trimSpace = False,
       nullIf = [],
       recordDelimiter = [], fieldDelimiter = [], fileExtension = [],
       setSkipHeader = False, skipHeader = 0,
       setSkipBlankLines = False, skipBlankLines = False,
       dateFormat = [], timeFormat = [], timestampFormat = [], binaryFormat = [],
       escape = [], escapeUnenclosedField = [], fieldOptionallyEnclosedBy = [],
       setErrorOnColumnCountMismatch = False, errorOnColumnCountMismatch = False,
       setReplaceInvalidCharacters = False, replaceInvalidCharacters = False,
       setValidateUtf8 = False, validateUtf8 = False,
       setEmptyFieldAsNull = False, emptyFieldAsNull = False,
       setSkipByteOrderMark = False, skipByteOrderMark = False,
       encoding = [] \<rparr>"

text \<open>The \<^verbatim>\<open>With...\<close> methods mutate the builder and return it; the model returns the new value.\<close>

definition WithType :: "string \<Rightarrow> FileFormatBuilder \<Rightarrow> FileFormatBuilder" where
  "WithType v fb = fb\<lparr>fileFormatType := v\<rparr>"

definition WithComment :: "string \<Rightarrow> FileFormatBuilder \<Rightarrow> FileFormatBuilder" where
  "WithComment v fb = fb\<lparr>comment := v\<rparr>"

definition WithCompression :: "string \<Rightarrow> FileFormatBuilder \<Rightarrow> FileFormatBuilder" where
  "WithCompression v fb = fb\<lparr>compression := v\<rparr>"

definition WithBinaryAsText :: "bool \<Rightarrow> FileFormatBuilder \<Rightarrow> FileFormatBuilder" where
  "WithBinaryAsText v fb = fb\<lparr>setBinaryAsText := True, binaryAsText := v\<rparr>"

definition WithTrimSpace :: "bool \<Rightarrow> FileFormatBuilder \<Rightarrow> FileFormatBuilder" where
  "WithTrimSpace v fb = fb\<lparr>setTrimSpace := True, trimSpace := v\<rparr>"

definition WithNullIf :: "string list \<Rightarrow> FileFormatBuilder \<Rightarrow> FileFormatBuilder" where
  "WithNullIf v fb = fb\<lparr>nullIf := v\<rparr>"

definition WithRecordDelimiter :: "string \<Rightarrow> FileFormatBuilder \<Rightarrow> FileFormatBuilder" where
  "WithRecordDelimiter v fb = fb\<lparr>recordDelimiter := v\<rparr>"

definition WithFieldDelimiter :: "string \<Rightarrow> FileFormatBuilder \<Rightarrow> FileFormatBuilder" where
  "WithFieldDelimiter v fb = fb\<lparr>fieldDelimiter := v\<rparr>"

definition WithFileExtension :: "string \<Rightarrow> FileFormatBuilder \<Rightarrow> FileFormatBuilder" where
  "WithFileExtension v fb = fb\<lparr>fileExtension := v\<rparr>"

definition WithSkipHeader :: "int \<Rightarrow> FileFormatBuilder \<Rightarrow> FileFormatBuilder" where
  "WithSkipHeader v fb = fb\<lparr>setSkipHeader := True, skipHeader := v\<rparr>"

definition WithSkipBlankLines :: "bool \<Rightarrow> FileFormatBuilder \<Rightarrow> FileFormatBuilder" where
  "WithSkipBlankLines v fb = fb\<lparr>setSkipBlankLines := True, skipBlankLines := v\<rparr>"

definition WithDateFormat :: "string \<Rightarrow> FileFormatBuilder \<Rightarrow> FileFormatBuilder" where
  "WithDateFormat v fb = fb\<lparr>dateFormat := v\<rparr>"

definition WithTimeFormat :: "string \<Rightarrow> FileFormatBuilder \<Rightarrow> FileFormatBuilder" where
  "WithTimeFormat v fb = fb\<lparr>timeFormat := v\<rparr>"

definition WithTimestampFormat :: "string \<Rightarrow> FileFormatBuilder \<Rightarrow> FileFormatBuilder" where
  "WithTimestampFormat v fb = fb\<lparr>timestampFormat := v\<rparr>"

definition WithBinaryFormat :: "string \<Rightarrow> FileFormatBuilder \<Rightarrow> FileFormatBuilder" where
  "WithBinaryFormat v fb = fb\<lparr>binaryFormat := v\<rparr>"

definition WithEscape :: "string \<Rightarrow> FileFormatBuilder \<Rightarrow> FileFormatBuilder" where
  "WithEscape v fb = fb\<lparr>escape := v\<rparr>"

definition WithEscapeUnenclosedField :: "string \<Rightarrow> FileFormatBuilder \<Rightarrow> FileFormatBuilder" where
  "WithEscapeUnenclosedField v fb = fb\<lparr>escapeUnenclosedField := v\<rparr>"

definition WithFieldOptionallyEnclosedBy :: "string \<Rightarrow> FileFormatBuilder \<Rightarrow> FileFormatBuilder" where
  "WithFieldOptionallyEnclosedBy v fb = fb\<lparr>fieldOptionallyEnclosedBy := v\<rparr>"

definition WithErrorOnColumnCountMismatch :: "bool \<Rightarrow> FileFormatBuilder \<Rightarrow> FileFormatBuilder" where
  "WithErrorOnColumnCountMismatch v fb = fb\<lparr>setErrorOnColumnCountMismatch := True, errorOnColumnCountMismatch := v\<rparr>"

definition WithReplaceInvalidCharacters :: "bool \<Rightarrow> FileFormatBuilder \<Rightarrow> FileFormatBuilder" where
  "WithReplaceInvalidCharacters v fb = fb\<lparr>setReplaceInvalidCharacters := True, replaceInvalidCharacters := v\<rparr>"

definition WithValidateUtf8 :: "bool \<Rightarrow> FileFormatBuilder \<Rightarrow> FileFormatBuilder" where
  "WithValidateUtf8 v fb = fb\<lparr>setValidateUtf8 := True, validateUtf8 := v\<rparr>"

definition WithEmptyFieldAsNull :: "bool \<Rightarrow> FileFormatBuilder \<Rightarrow> FileFormatBuilder" where
  "WithEmptyFieldAsNull v fb = fb\<lparr>setEmptyFieldAsNull := True, emptyFieldAsNull := v\<rparr>"

definition WithSkipByteOrderMark :: "bool \<Rightarrow> FileFormatBuilder \<Rightarrow> FileFormatBuilder" where
  "WithSkipByteOrderMark v fb = fb\<lparr>setSkipByteOrderMark := True, skipByteOrderMark := v\<rparr>"

definition WithEncoding :: "string \<Rightarrow> FileFormatBuilder \<Rightarrow> FileFormatBuilder" where
  "WithEncoding v fb = fb\<lparr>encoding := v\<rparr>"

text \<open>
  \<^verbatim>\<open>QualifiedName\<close> formats \<^verbatim>\<open>"%v"."%v"."%v"\<close> with the database, the schema and the name,
  in that order, as they are.
\<close>

definition QualifiedName :: "FileFormatBuilder \<Rightarrow> string" where
  \<open>QualifiedName fb = ''"'' @ db fb @ ''"."'' @ schema fb @ ''"."'' @ name fb @ ''"''\<close>

text \<open>
  \<^verbatim>\<open>Create\<close> writes the header and then, one \<^verbatim>\<open>if\<close> after the other, the clause of each
  property.  The loop over \<^verbatim>\<open>fb.nullIf\<close> that quotes and escapes each element is a
  \<^const>\<open>map\<close>; \<^verbatim>\<open>strings.Join(nulls, ",")\<close> is \<open>strings_Join\<close>.
\<close>

fun strings_Join :: "string list \<Rightarrow> string \<Rightarrow> string" where
  "strings_Join [] sep = []"
| "strings_Join [x] sep = x"
| "strings_Join (x # y # ys) sep = x @ sep @ strings_Join (y # ys) sep"

definition quoteNulls :: "string list \<Rightarrow> string list" where
  "quoteNulls ns = map (\<lambda>n. [squote] @ EscapeString n @ [squote]) ns"

definition Create :: "FileFormatBuilder \<Rightarrow> string" where
  \<open>Create fb =
     ''CREATE FILE FORMAT '' @ QualifiedName fb
     @ (if fileFormatType fb \<noteq> [] then '' TYPE = "'' @ fileFormatType fb @ ''"'' else [])
     @ (if comment fb \<noteq> [] then '' COMMENT = "'' @ EscapeString (comment fb) @ ''"'' else [])
     @ (if compression fb \<noteq> [] then '' COMPRESSION = "'' @ compression fb @ ''"'' else [])
     @ (if setBinaryAsText fb then '' BINARY_AS_TEXT = '' @ fmt_bool (binaryAsText fb) else [])
     @ (if setTrimSpace fb then '' TRIM_SPACE = '' @ fmt_bool (trimSpace fb) else [])
     @ (if length (nullIf fb) > 0
        then '' NULL_IF = ('' @ strings_Join (quoteNulls (nullIf fb)) '','' @ '')'' else [])
     @ (if recordDelimiter fb \<noteq> []
        then '' RECORD_DELIMITER = "'' @ EscapeString (recordDelimiter fb) @ ''"'' else [])
     @ (if fieldDelimiter fb \<noteq> []
        then '' FIELD_DELIMITER = "'' @ EscapeString (fieldDelimiter fb) @ ''"'' else [])
     @ (if fileExtension fb \<noteq> []
        then '' FILE_EXTENSION = "'' @ EscapeString (fileExtension fb) @ ''"'' else [])
     @ (if setSkipHeader fb then '' SKIP_HEADER = '' @ fmt_int (skipHeader fb) else [])
     @ (if setSkipBlankLines fb
        then '' SKIP_BLANK_LINES = '' @ fmt_bool (skipBlankLines fb) else [])
     @ (if dateFormat fb \<noteq> []
        then '' DATE_FORMAT = "'' @ EscapeString (dateFormat fb) @ ''"'' else [])
     @ (if timeFormat fb \<noteq> []
        then '' TIME_FORMAT = "'' @ EscapeString (timeFormat fb) @ ''"'' else [])
     @ (if timestampFormat fb \<noteq> []
        then '' TIMESTAMP_FORMAT = "'' @ EscapeString (timestampFormat fb) @ ''"'' else [])
     @ (if binaryFormat fb \<noteq> [] then '' BINARY_FORMAT = '' @ binaryFormat fb else [])
     @ (if escape fb \<noteq> [] then '' ESCAPE = "'' @ EscapeString (escape fb) @ ''"'' else [])
     @ (if escapeUnenclosedField fb \<noteq> []
        then '' ESCAPE_UNENCLOSED_FIELD = "'' @ EscapeString (escapeUnenclosedField fb) @ ''"''
        else [])
     @ (if fieldOptionallyEnclosedBy fb \<noteq> []
        then '' FIELD_OPTIONALLY_ENCLOSED_BY = "''
             @ EscapeString (fieldOptionallyEnclosedBy fb) @ ''"''
        else [])
     @ (if setErrorOnColumnCountMismatch fb
        then '' ERROR_ON_COLUMN_COUNT_MISMATCH = '' @ fmt_bool (errorOnColumnCountMismatch fb)
        else [])
     @ (if setReplaceInvalidCharacters fb
        then '' REPLACE_INVALID_CHARACTERS = '' @ fmt_bool (replaceInvalidCharacters fb)
        else [])
     @ (if setValidateUtf8 fb then '' VALIDATE_UTF8 = '' @ fmt_bool (validateUtf8 fb) else [])
     @ (if setEmptyFieldAsNull fb
        then '' EMPTY_FIELD_AS_NULL = '' @ fmt_bool (emptyFieldAsNull fb) else [])
     @ (if setSkipByteOrderMark fb
        then '' SKIP_BYTE_ORDER_MARK = '' @ fmt_bool (skipByteOrderMark fb) else [])
     @ (if encoding fb \<noteq> [] then '' ENCODING = "'' @ EscapeString (encoding fb) @ ''"'' else [])\<close>

text \<open>The fixed-shape statements.\<close>

definition Drop :: "FileFormatBuilder \<Rightarrow> string" where
  "Drop fb = ''DROP FILE FORMAT '' @ QualifiedName fb"

definition Describe :: "FileFormatBuilder \<Rightarrow> string" where
  "Describe fb = ''DESCRIBE FILE FORMAT '' @ QualifiedName fb"

definition Show :: "FileFormatBuilder \<Rightarrow> string" where
  \<open>Show fb = ''SHOW FILE FORMATS LIKE '' @ [squote] @ name fb @ [squote]
              @ '' IN DATABASE "'' @ db fb @ ''"''\<close>

section \<open>The clause list of \<open>Create\<close>\<close>

text \<open>
  The properties of a file format, named by their SQL keywords (with the prefix \<open>P_\<close>), and the declaration order
  the specification gives for the clauses of \<^verbatim>\<open>Create\<close>.
\<close>

datatype property =
    P_TYPE | P_COMMENT | P_COMPRESSION | P_BINARY_AS_TEXT | P_TRIM_SPACE | P_NULL_IF
  | P_RECORD_DELIMITER | P_FIELD_DELIMITER | P_FILE_EXTENSION | P_SKIP_HEADER | P_SKIP_BLANK_LINES
  | P_DATE_FORMAT | P_TIME_FORMAT | P_TIMESTAMP_FORMAT | P_BINARY_FORMAT | P_ESCAPE
  | P_ESCAPE_UNENCLOSED_FIELD | P_FIELD_OPTIONALLY_ENCLOSED_BY | P_ERROR_ON_COLUMN_COUNT_MISMATCH
  | P_REPLACE_INVALID_CHARACTERS | P_VALIDATE_UTF8 | P_EMPTY_FIELD_AS_NULL | P_SKIP_BYTE_ORDER_MARK
  | P_ENCODING

definition property_order :: "property list" where
  "property_order =
     [P_TYPE, P_COMMENT, P_COMPRESSION, P_BINARY_AS_TEXT, P_TRIM_SPACE, P_NULL_IF, P_RECORD_DELIMITER,
      P_FIELD_DELIMITER, P_FILE_EXTENSION, P_SKIP_HEADER, P_SKIP_BLANK_LINES, P_DATE_FORMAT,
      P_TIME_FORMAT, P_TIMESTAMP_FORMAT, P_BINARY_FORMAT, P_ESCAPE, P_ESCAPE_UNENCLOSED_FIELD,
      P_FIELD_OPTIONALLY_ENCLOSED_BY, P_ERROR_ON_COLUMN_COUNT_MISMATCH,
      P_REPLACE_INVALID_CHARACTERS, P_VALIDATE_UTF8, P_EMPTY_FIELD_AS_NULL, P_SKIP_BYTE_ORDER_MARK,
      P_ENCODING]"

text \<open>
  \<open>emitted p fb\<close>: the builder state makes \<^verbatim>\<open>Create\<close> write the clause of \<open>p\<close>, that is
  the guard of the property's \<^verbatim>\<open>if\<close> in the source.
\<close>

fun emitted :: "property \<Rightarrow> FileFormatBuilder \<Rightarrow> bool" where
  "emitted P_TYPE fb = (fileFormatType fb \<noteq> [])"
| "emitted P_COMMENT fb = (comment fb \<noteq> [])"
| "emitted P_COMPRESSION fb = (compression fb \<noteq> [])"
| "emitted P_BINARY_AS_TEXT fb = (setBinaryAsText fb)"
| "emitted P_TRIM_SPACE fb = (setTrimSpace fb)"
| "emitted P_NULL_IF fb = (length (nullIf fb) > 0)"
| "emitted P_RECORD_DELIMITER fb = (recordDelimiter fb \<noteq> [])"
| "emitted P_FIELD_DELIMITER fb = (fieldDelimiter fb \<noteq> [])"
| "emitted P_FILE_EXTENSION fb = (fileExtension fb \<noteq> [])"
| "emitted P_SKIP_HEADER fb = (setSkipHeader fb)"
| "emitted P_SKIP_BLANK_LINES fb = (setSkipBlankLines fb)"
| "emitted P_DATE_FORMAT fb = (dateFormat fb \<noteq> [])"
| "emitted P_TIME_FORMAT fb = (timeFormat fb \<noteq> [])"
| "emitted P_TIMESTAMP_FORMAT fb = (timestampFormat fb \<noteq> [])"
| "emitted P_BINARY_FORMAT fb = (binaryFormat fb \<noteq> [])"
| "emitted P_ESCAPE fb = (escape fb \<noteq> [])"
| "emitted P_ESCAPE_UNENCLOSED_FIELD fb = (escapeUnenclosedField fb \<noteq> [])"
| "emitted P_FIELD_OPTIONALLY_ENCLOSED_BY fb = (fieldOptionallyEnclosedBy fb \<noteq> [])"
| "emitted P_ERROR_ON_COLUMN_COUNT_MISMATCH fb = (setErrorOnColumnCountMismatch fb)"
| "emitted P_REPLACE_INVALID_CHARACTERS fb = (setReplaceInvalidCharacters fb)"
| "emitted P_VALIDATE_UTF8 fb = (setValidateUtf8 fb)"
| "emitted P_EMPTY_FIELD_AS_NULL fb = (setEmptyFieldAsNull fb)"
| "emitted P_SKIP_BYTE_ORDER_MARK fb = (setSkipByteOrderMark fb)"
| "emitted P_ENCODING fb = (encoding fb \<noteq> [])"

text \<open>
  \<open>clause esc p fb\<close>: the text of the clause of \<open>p\<close>, with \<open>esc\<close> standing where the source
  calls \<^verbatim>\<open>EscapeString\<close>.  The type, the compression and the binary format are formatted
  without that call; the binary format is also written without quotes.
\<close>

fun clause :: "(string \<Rightarrow> string) \<Rightarrow> property \<Rightarrow> FileFormatBuilder \<Rightarrow> string" where
  \<open>clause esc P_TYPE fb = '' TYPE = "'' @ fileFormatType fb @ ''"''\<close>
| \<open>clause esc P_COMMENT fb = '' COMMENT = "'' @ esc (comment fb) @ ''"''\<close>
| \<open>clause esc P_COMPRESSION fb = '' COMPRESSION = "'' @ compression fb @ ''"''\<close>
| \<open>clause esc P_BINARY_AS_TEXT fb = '' BINARY_AS_TEXT = '' @ fmt_bool (binaryAsText fb)\<close>
| \<open>clause esc P_TRIM_SPACE fb = '' TRIM_SPACE = '' @ fmt_bool (trimSpace fb)\<close>
| \<open>clause esc P_NULL_IF fb = '' NULL_IF = ('' @ strings_Join (map (\<lambda>n. [squote] @ esc n @ [squote]) (nullIf fb)) '','' @ '')''\<close>
| \<open>clause esc P_RECORD_DELIMITER fb = '' RECORD_DELIMITER = "'' @ esc (recordDelimiter fb) @ ''"''\<close>
| \<open>clause esc P_FIELD_DELIMITER fb = '' FIELD_DELIMITER = "'' @ esc (fieldDelimiter fb) @ ''"''\<close>
| \<open>clause esc P_FILE_EXTENSION fb = '' FILE_EXTENSION = "'' @ esc (fileExtension fb) @ ''"''\<close>
| \<open>clause esc P_SKIP_HEADER fb = '' SKIP_HEADER = '' @ fmt_int (skipHeader fb)\<close>
| \<open>clause esc P_SKIP_BLANK_LINES fb = '' SKIP_BLANK_LINES = '' @ fmt_bool (skipBlankLines fb)\<close>
| \<open>clause esc P_DATE_FORMAT fb = '' DATE_FORMAT = "'' @ esc (dateFormat fb) @ ''"''\<close>
| \<open>clause esc P_TIME_FORMAT fb = '' TIME_FORMAT = "'' @ esc (timeFormat fb) @ ''"''\<close>
| \<open>clause esc P_TIMESTAMP_FORMAT fb = '' TIMESTAMP_FORMAT = "'' @ esc (timestampFormat fb) @ ''"''\<close>
| \<open>clause esc P_BINARY_FORMAT fb = '' BINARY_FORMAT = '' @ binaryFormat fb\<close>
| \<open>clause esc P_ESCAPE fb = '' ESCAPE = "'' @ esc (escape fb) @ ''"''\<close>
| \<open>clause esc P_ESCAPE_UNENCLOSED_FIELD fb = '' ESCAPE_UNENCLOSED_FIELD = "'' @ esc (escapeUnenclosedField fb) @ ''"''\<close>
| \<open>clause esc P_FIELD_OPTIONALLY_ENCLOSED_BY fb = '' FIELD_OPTIONALLY_ENCLOSED_BY = "'' @ esc (fieldOptionallyEnclosedBy fb) @ ''"''\<close>
| \<open>clause esc P_ERROR_ON_COLUMN_COUNT_MISMATCH fb = '' ERROR_ON_COLUMN_COUNT_MISMATCH = '' @ fmt_bool (errorOnColumnCountMismatch fb)\<close>
| \<open>clause esc P_REPLACE_INVALID_CHARACTERS fb = '' REPLACE_INVALID_CHARACTERS = '' @ fmt_bool (replaceInvalidCharacters fb)\<close>
| \<open>clause esc P_VALIDATE_UTF8 fb = '' VALIDATE_UTF8 = '' @ fmt_bool (validateUtf8 fb)\<close>
| \<open>clause esc P_EMPTY_FIELD_AS_NULL fb = '' EMPTY_FIELD_AS_NULL = '' @ fmt_bool (emptyFieldAsNull fb)\<close>
| \<open>clause esc P_SKIP_BYTE_ORDER_MARK fb = '' SKIP_BYTE_ORDER_MARK = '' @ fmt_bool (skipByteOrderMark fb)\<close>
| \<open>clause esc P_ENCODING fb = '' ENCODING = "'' @ esc (encoding fb) @ ''"''\<close>

definition render :: "(string \<Rightarrow> string) \<Rightarrow> FileFormatBuilder \<Rightarrow> string" where
  "render esc fb =
     ''CREATE FILE FORMAT '' @ QualifiedName fb
     @ concat (map (\<lambda>p. clause esc p fb) (filter (\<lambda>p. emitted p fb) property_order))"

text \<open>
  A sequence of \<^verbatim>\<open>With...\<close> calls on a builder, as data: one constructor per method.
\<close>

datatype with_call =
    CallWithType string
  | CallWithComment string
  | CallWithCompression string
  | CallWithBinaryAsText bool
  | CallWithTrimSpace bool
  | CallWithNullIf "string list"
  | CallWithRecordDelimiter string
  | CallWithFieldDelimiter string
  | CallWithFileExtension string
  | CallWithSkipHeader int
  | CallWithSkipBlankLines bool
  | CallWithDateFormat string
  | CallWithTimeFormat string
  | CallWithTimestampFormat string
  | CallWithBinaryFormat string
  | CallWithEscape string
  | CallWithEscapeUnenclosedField string
  | CallWithFieldOptionallyEnclosedBy string
  | CallWithErrorOnColumnCountMismatch bool
  | CallWithReplaceInvalidCharacters bool
  | CallWithValidateUtf8 bool
  | CallWithEmptyFieldAsNull bool
  | CallWithSkipByteOrderMark bool
  | CallWithEncoding string

fun apply_call :: "with_call \<Rightarrow> FileFormatBuilder \<Rightarrow> FileFormatBuilder" where
  "apply_call (CallWithType v) fb = WithType v fb"
| "apply_call (CallWithComment v) fb = WithComment v fb"
| "apply_call (CallWithCompression v) fb = WithCompression v fb"
| "apply_call (CallWithBinaryAsText v) fb = WithBinaryAsText v fb"
| "apply_call (CallWithTrimSpace v) fb = WithTrimSpace v fb"
| "apply_call (CallWithNullIf v) fb = WithNullIf v fb"
| "apply_call (CallWithRecordDelimiter v) fb = WithRecordDelimiter v fb"
| "apply_call (CallWithFieldDelimiter v) fb = WithFieldDelimiter v fb"
| "apply_call (CallWithFileExtension v) fb = WithFileExtension v fb"
| "apply_call (CallWithSkipHeader v) fb = WithSkipHeader v fb"
| "apply_call (CallWithSkipBlankLines v) fb = WithSkipBlankLines v fb"
| "apply_call (CallWithDateFormat v) fb = WithDateFormat v fb"
| "apply_call (CallWithTimeFormat v) fb = WithTimeFormat v fb"
| "apply_call (CallWithTimestampFormat v) fb = WithTimestampFormat v fb"
| "apply_call (CallWithBinaryFormat v) fb = WithBinaryFormat v fb"
| "apply_call (CallWithEscape v) fb = WithEscape v fb"
| "apply_call (CallWithEscapeUnenclosedField v) fb = WithEscapeUnenclosedField v fb"
| "apply_call (CallWithFieldOptionallyEnclosedBy v) fb = WithFieldOptionallyEnclosedBy v fb"
| "apply_call (CallWithErrorOnColumnCountMismatch v) fb = WithErrorOnColumnCountMismatch v fb"
| "apply_call (CallWithReplaceInvalidCharacters v) fb = WithReplaceInvalidCharacters v fb"
| "apply_call (CallWithValidateUtf8 v) fb = WithValidateUtf8 v fb"
| "apply_call (CallWithEmptyFieldAsNull v) fb = WithEmptyFieldAsNull v fb"
| "apply_call (CallWithSkipByteOrderMark v) fb = WithSkipByteOrderMark v fb"
| "apply_call (CallWithEncoding v) fb = WithEncoding v fb"

fun call_property :: "with_call \<Rightarrow> property" where
  "call_property (CallWithType v) = P_TYPE"
| "call_property (CallWithComment v) = P_COMMENT"
| "call_property (CallWithCompression v) = P_COMPRESSION"
| "call_property (CallWithBinaryAsText v) = P_BINARY_AS_TEXT"
| "call_property (CallWithTrimSpace v) = P_TRIM_SPACE"
| "call_property (CallWithNullIf v) = P_NULL_IF"
| "call_property (CallWithRecordDelimiter v) = P_RECORD_DELIMITER"
| "call_property (CallWithFieldDelimiter v) = P_FIELD_DELIMITER"
| "call_property (CallWithFileExtension v) = P_FILE_EXTENSION"
| "call_property (CallWithSkipHeader v) = P_SKIP_HEADER"
| "call_property (CallWithSkipBlankLines v) = P_SKIP_BLANK_LINES"
| "call_property (CallWithDateFormat v) = P_DATE_FORMAT"
| "call_property (CallWithTimeFormat v) = P_TIME_FORMAT"
| "call_property (CallWithTimestampFormat v) = P_TIMESTAMP_FORMAT"
| "call_property (CallWithBinaryFormat v) = P_BINARY_FORMAT"
| "call_property (CallWithEscape v) = P_ESCAPE"
| "call_property (CallWithEscapeUnenclosedField v) = P_ESCAPE_UNENCLOSED_FIELD"
| "call_property (CallWithFieldOptionallyEnclosedBy v) = P_FIELD_OPTIONALLY_ENCLOSED_BY"
| "call_property (CallWithErrorOnColumnCountMismatch v) = P_ERROR_ON_COLUMN_COUNT_MISMATCH"
| "call_property (CallWithReplaceInvalidCharacters v) = P_REPLACE_INVALID_CHARACTERS"
| "call_property (CallWithValidateUtf8 v) = P_VALIDATE_UTF8"
| "call_property (CallWithEmptyFieldAsNull v) = P_EMPTY_FIELD_AS_NULL"
| "call_property (CallWithSkipByteOrderMark v) = P_SKIP_BYTE_ORDER_MARK"
| "call_property (CallWithEncoding v) = P_ENCODING"

text \<open>
  \<open>call_nonempty c\<close>: the call passes a value other than the empty string or the empty
  list.  A call of a boolean or integer setter always does.
\<close>

fun call_nonempty :: "with_call \<Rightarrow> bool" where
  "call_nonempty (CallWithType v) = (v \<noteq> [])"
| "call_nonempty (CallWithComment v) = (v \<noteq> [])"
| "call_nonempty (CallWithCompression v) = (v \<noteq> [])"
| "call_nonempty (CallWithBinaryAsText v) = True"
| "call_nonempty (CallWithTrimSpace v) = True"
| "call_nonempty (CallWithNullIf v) = (v \<noteq> [])"
| "call_nonempty (CallWithRecordDelimiter v) = (v \<noteq> [])"
| "call_nonempty (CallWithFieldDelimiter v) = (v \<noteq> [])"
| "call_nonempty (CallWithFileExtension v) = (v \<noteq> [])"
| "call_nonempty (CallWithSkipHeader v) = True"
| "call_nonempty (CallWithSkipBlankLines v) = True"
| "call_nonempty (CallWithDateFormat v) = (v \<noteq> [])"
| "call_nonempty (CallWithTimeFormat v) = (v \<noteq> [])"
| "call_nonempty (CallWithTimestampFormat v) = (v \<noteq> [])"
| "call_nonempty (CallWithBinaryFormat v) = (v \<noteq> [])"
| "call_nonempty (CallWithEscape v) = (v \<noteq> [])"
| "call_nonempty (CallWithEscapeUnenclosedField v) = (v \<noteq> [])"
| "call_nonempty (CallWithFieldOptionallyEnclosedBy v) = (v \<noteq> [])"
| "call_nonempty (CallWithErrorOnColumnCountMismatch v) = True"
| "call_nonempty (CallWithReplaceInvalidCharacters v) = True"
| "call_nonempty (CallWithValidateUtf8 v) = True"
| "call_nonempty (CallWithEmptyFieldAsNull v) = True"
| "call_nonempty (CallWithSkipByteOrderMark v) = True"
| "call_nonempty (CallWithEncoding v) = (v \<noteq> [])"

definition run_calls :: "with_call list \<Rightarrow> FileFormatBuilder \<Rightarrow> FileFormatBuilder" where
  "run_calls cs fb = fold apply_call cs fb"

text \<open>
  \<open>clause_expected p cs\<close>: the calls \<open>cs\<close> contain a call of the setter of \<open>p\<close>, and the last
  such call passes a non-empty value.
\<close>

definition clause_expected :: "property \<Rightarrow> with_call list \<Rightarrow> bool" where
  "clause_expected p cs =
     (case filter (\<lambda>c. call_property c = p) cs of
        [] \<Rightarrow> False
      | c # cs' \<Rightarrow> call_nonempty (last (c # cs')))"

text \<open>
  Two definitions used to state which values \<^verbatim>\<open>Create\<close> passes through \<^verbatim>\<open>EscapeString\<close>:
  \<open>Create_verbatim\<close> is the clause list with every value embedded as it is, and
  \<open>escapeProperties\<close> escapes the free-text properties of a builder.
\<close>

definition Create_verbatim :: "FileFormatBuilder \<Rightarrow> string" where
  "Create_verbatim fb = render (\<lambda>v. v) fb"

definition escapeProperties :: "FileFormatBuilder \<Rightarrow> FileFormatBuilder" where
  "escapeProperties fb =
     fb\<lparr> comment := EscapeString (comment fb),
         nullIf := map EscapeString (nullIf fb),
         recordDelimiter := EscapeString (recordDelimiter fb),
         fieldDelimiter := EscapeString (fieldDelimiter fb),
         fileExtension := EscapeString (fileExtension fb),
         dateFormat := EscapeString (dateFormat fb),
         timeFormat := EscapeString (timeFormat fb),
         timestampFormat := EscapeString (timestampFormat fb),
         escape := EscapeString (escape fb),
         escapeUnenclosedField := EscapeString (escapeUnenclosedField fb),
         fieldOptionallyEnclosedBy := EscapeString (fieldOptionallyEnclosedBy fb),
         encoding := EscapeString (encoding fb) \<rparr>"

text \<open>
  \<^verbatim>\<open>Create\<close> of the earlier snapshot \<^verbatim>\<open>src/pkg/snowflake/file_format.go\<close> (lines 85 to 115).
  Its builder has the fields up to \<^verbatim>\<open>nullIf\<close> without the two flags, and the clauses of
  \<^verbatim>\<open>binaryAsText\<close> and \<^verbatim>\<open>trimSpace\<close> are written unconditionally.
\<close>

definition Create_snapshot :: "FileFormatBuilder \<Rightarrow> string" where
  \<open>Create_snapshot fb =
     ''CREATE FILE FORMAT '' @ QualifiedName fb
     @ (if fileFormatType fb \<noteq> [] then '' TYPE = "'' @ fileFormatType fb @ ''"'' else [])
     @ (if comment fb \<noteq> [] then '' COMMENT = "'' @ EscapeString (comment fb) @ ''"'' else [])
     @ (if compression fb \<noteq> [] then '' COMPRESSION = "'' @ compression fb @ ''"'' else [])
     @ '' BINARY_AS_TEXT = '' @ fmt_bool (binaryAsText fb)
     @ '' TRIM_SPACE = '' @ fmt_bool (trimSpace fb)
     @ (if length (nullIf fb) > 0
        then '' NULL_IF = ('' @ strings_Join (quoteNulls (nullIf fb)) '','' @ '')'' else [])\<close>

section \<open>Errors\<close>

text \<open>
  The error values of the program: \<^verbatim>\<open>io.EOF\<close>, the four errors of \<^verbatim>\<open>encoding/csv\<close> that
  can arise here, \<^verbatim>\<open>fmt.Errorf\<close> with its message, \<^verbatim>\<open>strconv.NumError\<close> with the function,
  the input and the reason, an error of the database handle with its message, and
  \<^verbatim>\<open>errors.Wrapf(err, message)\<close>.
\<close>

datatype error =
    io_EOF
  | csv_ErrInvalidDelim
  | csv_ErrBareQuote
  | csv_ErrQuote
  | csv_ErrFieldCount
  | Errorf string
  | NumError string string string
  | DriverError string
  | Wrapf error string

section \<open>Library functions on strings\<close>

definition LF :: char where
  "LF = CHR 0x0A"

definition CR :: char where
  "CR = CHR 0x0D"

text \<open>
  \<^verbatim>\<open>unicode.IsSpace\<close> holds for U+0009 to U+000D, U+0020, U+0085, U+00A0, U+1680, U+2000 to
  U+200A, U+2028, U+2029, U+202F, U+205F and U+3000.  On the bytes of a string, the rune
  that \<^verbatim>\<open>utf8.DecodeRuneInString\<close> reads first (or \<^verbatim>\<open>utf8.DecodeLastRuneInString\<close> reads
  last) is one of them exactly when the string starts (or ends) with its UTF-8 encoding;
  an invalid sequence decodes to \<^verbatim>\<open>utf8.RuneError\<close>, which is not a space.
\<close>

definition space_encodings :: "string list" where
  "space_encodings =
     [[CHR 0x09], [CHR 0x0A], [CHR 0x0B], [CHR 0x0C], [CHR 0x0D], [CHR 0x20],
      [CHR 0xC2, CHR 0x85], [CHR 0xC2, CHR 0xA0],
      [CHR 0xE1, CHR 0x9A, CHR 0x80],
      [CHR 0xE2, CHR 0x80, CHR 0x80], [CHR 0xE2, CHR 0x80, CHR 0x81],
      [CHR 0xE2, CHR 0x80, CHR 0x82], [CHR 0xE2, CHR 0x80, CHR 0x83],
      [CHR 0xE2, CHR 0x80, CHR 0x84], [CHR 0xE2, CHR 0x80, CHR 0x85],
      [CHR 0xE2, CHR 0x80, CHR 0x86], [CHR 0xE2, CHR 0x80, CHR 0x87],
      [CHR 0xE2, CHR 0x80, CHR 0x88], [CHR 0xE2, CHR 0x80, CHR 0x89],
      [CHR 0xE2, CHR 0x80, CHR 0x8A],
      [CHR 0xE2, CHR 0x80, CHR 0xA8], [CHR 0xE2, CHR 0x80, CHR 0xA9],
      [CHR 0xE2, CHR 0x80, CHR 0xAF], [CHR 0xE2, CHR 0x81, CHR 0x9F],
      [CHR 0xE3, CHR 0x80, CHR 0x80]]"

text \<open>
  \<open>leading_match encs s\<close>: the first of \<open>encs\<close> that \<open>s\<close> starts with.  All members of
  \<^const>\<open>space_encodings\<close> are non-empty, and no string starts with two of them.
\<close>

fun leading_match :: "string list \<Rightarrow> string \<Rightarrow> string option" where
  "leading_match [] s = None"
| "leading_match (e # es) s = (if e \<noteq> [] \<and> prefix e s then Some e else leading_match es s)"

definition startsWithSpace :: "string \<Rightarrow> bool" where
  "startsWithSpace s = (leading_match space_encodings s \<noteq> None)"

text \<open>
  \<^verbatim>\<open>strings.TrimSpace\<close> removes the space runes at the start and at the end of a string.
\<close>

function strip_leading :: "string list \<Rightarrow> string \<Rightarrow> string" where
  "strip_leading encs s =
     (case leading_match encs s of
        None \<Rightarrow> s
      | Some e \<Rightarrow> strip_leading encs (drop (length e) s))"
  by pat_completeness auto
termination
proof (relation "measure (\<lambda>(encs, s). length s)")
  show "wf (measure (\<lambda>(encs, s). length s))"
    by simp
next
  fix encs :: "string list" and s e :: string
  assume "leading_match encs s = Some e"
  then have "e \<noteq> [] \<and> prefix e s"
    by (induction encs) (auto split: if_splits)
  then have "length (drop (length e) s) < length s"
    by (auto simp: prefix_def)
  then show "((encs, drop (length e) s), (encs, s)) \<in> measure (\<lambda>(encs, s). length s)"
    by simp
qed

declare strip_leading.simps [simp del]

definition strings_TrimSpace :: "string \<Rightarrow> string" where
  "strings_TrimSpace s =
     rev (strip_leading (map rev space_encodings) (rev (strip_leading space_encodings s)))"

text \<open>
  \<^verbatim>\<open>strings.Trim(s, cutset)\<close> for a cutset of ASCII characters, and \<^verbatim>\<open>strings.Split(s, sep)\<close>
  for a separator of one ASCII character: both work on bytes.  \<^verbatim>\<open>Split\<close> returns one more
  element than there are separators in \<open>s\<close>.
\<close>

definition strings_Trim :: "string \<Rightarrow> string \<Rightarrow> string" where
  "strings_Trim s cutset =
     rev (dropWhile (\<lambda>c. c \<in> set cutset) (rev (dropWhile (\<lambda>c. c \<in> set cutset) s)))"

fun strings_Split :: "string \<Rightarrow> char \<Rightarrow> string list" where
  "strings_Split [] sep = [[]]"
| "strings_Split (c # cs) sep =
     (if c = sep then [] # strings_Split cs sep
      else (case strings_Split cs sep of
              [] \<Rightarrow> [[c]]
            | x # xs \<Rightarrow> (c # x) # xs))"

section \<open>The writer of \<open>encoding/csv\<close>\<close>

text \<open>
  The delimiter is an ASCII character (the program uses \<^verbatim>\<open>'|'\<close>), so the writer and the
  reader compare bytes.  \<^verbatim>\<open>validDelim\<close> refuses NUL, the quote, CR and LF.
\<close>

definition validDelim :: "char \<Rightarrow> bool" where
  "validDelim r = (r \<noteq> CHR 0x00 \<and> r \<noteq> dquote \<and> r \<noteq> CR \<and> r \<noteq> LF)"

text \<open>
  \<^verbatim>\<open>fieldNeedsQuotes\<close>: the empty field does not; the field \<^verbatim>\<open>\.\<close> does; a field with a
  delimiter, a quote, CR or LF does; otherwise a field does when its first rune is a space.
\<close>

definition fieldNeedsQuotes :: "char \<Rightarrow> string \<Rightarrow> bool" where
  "fieldNeedsQuotes comma field =
     (if field = [] then False
      else if field = [backslash, CHR ''.''] then True
      else if list_ex (\<lambda>c. c = LF \<or> c = CR \<or> c = dquote \<or> c = comma) field then True
      else startsWithSpace field)"

text \<open>
  The body of a quoted field, with \<^verbatim>\<open>UseCRLF\<close> at its default \<^verbatim>\<open>false\<close>: a quote is doubled,
  CR and LF are written as they are, like every other byte.
\<close>

fun quotedBody :: "string \<Rightarrow> string" where
  "quotedBody [] = []"
| "quotedBody (c # cs) = (if c = dquote then [dquote, dquote] else [c]) @ quotedBody cs"

definition writeField :: "char \<Rightarrow> string \<Rightarrow> string" where
  "writeField comma field =
     (if \<not> fieldNeedsQuotes comma field then field
      else [dquote] @ quotedBody field @ [dquote])"

text \<open>
  \<^verbatim>\<open>Writer.Write\<close>: the fields separated by the delimiter, then a line feed.
  \<^verbatim>\<open>Writer.WriteAll\<close> writes every record and flushes; a \<^verbatim>\<open>bytes.Buffer\<close> never fails.
\<close>

definition csv_Write :: "char \<Rightarrow> string list \<Rightarrow> error + string" where
  "csv_Write comma record =
     (if \<not> validDelim comma then Inl csv_ErrInvalidDelim
      else Inr (strings_Join (map (writeField comma) record) [comma] @ [LF]))"

fun csv_WriteAll :: "char \<Rightarrow> string list list \<Rightarrow> error + string" where
  "csv_WriteAll comma [] = Inr []"
| "csv_WriteAll comma (record # records) =
     (case csv_Write comma record of
        Inl err \<Rightarrow> Inl err
      | Inr line \<Rightarrow>
          (case csv_WriteAll comma records of
             Inl err \<Rightarrow> Inl err
           | Inr rest \<Rightarrow> Inr (line @ rest)))"

section \<open>The reader of \<open>encoding/csv\<close>\<close>

text \<open>
  The reader's input is a \<^verbatim>\<open>strings.Reader\<close>: the unread part is a string, and the only read
  error is \<^verbatim>\<open>io.EOF\<close>.  The reader has its default settings (no comment character, no lazy
  quotes, no trimming of leading space, \<^verbatim>\<open>FieldsPerRecord = 0\<close>).

  \<^verbatim>\<open>readLine\<close> returns the next line with its line feed, whether the input was at its end,
  and the unread rest.  A last line without a line feed is returned without error and
  loses a trailing CR; a line that ends with CR LF ends with LF afterwards.
\<close>

definition readLine :: "string \<Rightarrow> string \<times> bool \<times> string" where
  "readLine inp =
     (if inp = [] then ([], True, [])
      else
        let line = takeWhile (\<lambda>c. c \<noteq> LF) inp;
            rest = dropWhile (\<lambda>c. c \<noteq> LF) inp
        in if rest = []
           then ((if last line = CR then butlast line else line), False, [])
           else ((if line \<noteq> [] \<and> last line = CR then butlast line @ [LF] else line @ [LF]),
                 False, tl rest))"

definition lengthNL :: "string \<Rightarrow> nat" where
  "lengthNL b = (if b \<noteq> [] \<and> last b = LF then 1 else 0)"

text \<open>The loop at the start of \<^verbatim>\<open>readRecord\<close> that skips empty lines.\<close>

function nextLine :: "string \<Rightarrow> string \<times> bool \<times> string" where
  "nextLine inp =
     (case readLine inp of
        (line, eof, rest) \<Rightarrow>
          if \<not> eof \<and> length line = lengthNL line then nextLine rest
          else (line, eof, rest))"
  by pat_completeness auto
termination
proof (relation "measure length")
  show "wf (measure length)"
    by simp
next
  fix inp line rest :: string and eof :: bool and x :: "bool \<times> string"
  assume "(line, x) = readLine inp" and "(eof, rest) = x"
    and "\<not> eof \<and> length line = lengthNL line"
  then have r: "readLine inp = (line, False, rest)"
    by simp
  have "length (tl (dropWhile (\<lambda>c. c \<noteq> LF) inp)) < length inp" if "inp \<noteq> []"
  proof -
    have "length (dropWhile (\<lambda>c. c \<noteq> LF) inp) \<le> length inp"
      by (rule length_dropWhile_le)
    moreover have "0 < length inp"
      using that by simp
    ultimately show ?thesis
      unfolding length_tl by linarith
  qed
  with r have "length rest < length inp"
    by (auto simp: readLine_def Let_def split: if_splits)
  then show "(rest, inp) \<in> measure length"
    by simp
qed

declare nextLine.simps [simp del]

text \<open>
  The loop \<^verbatim>\<open>parseField\<close> of \<^verbatim>\<open>readRecord\<close> and, inside it, the loop over a quoted field.
  \<open>line\<close> is the unparsed part of the current line, \<open>rest\<close> the unread input, \<open>parsed\<close> the
  fields parsed so far and \<open>buf\<close> the part of the quoted field read so far.  The result
  is the record or the parse error, with the unread input.
\<close>

function parseField :: "char \<Rightarrow> string \<Rightarrow> string \<Rightarrow> string list \<Rightarrow> (error + string list) \<times> string"
  and quotedField ::
    "char \<Rightarrow> string \<Rightarrow> string \<Rightarrow> string \<Rightarrow> string list \<Rightarrow> (error + string list) \<times> string"
where
  "parseField comma line rest parsed =
     (if line = [] \<or> hd line \<noteq> dquote then
        (if comma \<in> set line then
           (let field = takeWhile (\<lambda>c. c \<noteq> comma) line in
            if dquote \<in> set field then (Inl csv_ErrBareQuote, rest)
            else parseField comma (tl (dropWhile (\<lambda>c. c \<noteq> comma) line)) rest
                   (parsed @ [field]))
         else
           (let field = take (length line - lengthNL line) line in
            if dquote \<in> set field then (Inl csv_ErrBareQuote, rest)
            else (Inr (parsed @ [field]), rest)))
      else quotedField comma (tl line) rest [] parsed)"
| "quotedField comma line rest buf parsed =
     (if dquote \<in> set line then
        (let buf' = buf @ takeWhile (\<lambda>c. c \<noteq> dquote) line;
             line' = tl (dropWhile (\<lambda>c. c \<noteq> dquote) line)
         in if line' \<noteq> [] \<and> hd line' = dquote
              then quotedField comma (tl line') rest (buf' @ [dquote]) parsed
            else if line' \<noteq> [] \<and> hd line' = comma
              then parseField comma (tl line') rest (parsed @ [buf'])
            else if lengthNL line' = length line'
              then (Inr (parsed @ [buf']), rest)
            else (Inl csv_ErrQuote, rest))
      else if line \<noteq> [] then
        (case readLine rest of
           (line', eof, rest') \<Rightarrow> quotedField comma line' rest' (buf @ line) parsed)
      else (Inl csv_ErrQuote, rest))"
  by pat_completeness auto
termination
proof -
  have dw: "length (dropWhile P xs) - Suc 0 < length xs"
    and dw2: "length (dropWhile P xs) - Suc (Suc 0) < length xs"
    if "c \<in> set xs" for P c and xs :: string
  proof -
    have "length (dropWhile P xs) \<le> length xs"
      by (rule length_dropWhile_le)
    moreover have "0 < length xs"
      using that by (cases xs) simp_all
    ultimately show "length (dropWhile P xs) - Suc 0 < length xs"
      and "length (dropWhile P xs) - Suc (Suc 0) < length xs"
      by linarith+
  qed
  have rl: "length line' + length rest' \<le> length rest"
    if "readLine rest = (line', eof, rest')" for rest line' rest' eof
  proof -
    have "length (takeWhile (\<lambda>c. c \<noteq> LF) rest) + length (dropWhile (\<lambda>c. c \<noteq> LF) rest)
          = length rest"
      by (metis length_append takeWhile_dropWhile_id)
    with that show ?thesis
      by (cases "dropWhile (\<lambda>c. c \<noteq> LF) rest")
         (auto simp: readLine_def Let_def split: if_splits)
  qed
  show ?thesis
  proof (relation "measure (\<lambda>a. case a of
            Inl (comma, line, rest, parsed) \<Rightarrow> length line + length rest
          | Inr (comma, line, rest, buf, parsed) \<Rightarrow> length line + length rest)")
    fix rest line' rest' :: string and eof :: bool and x :: "bool \<times> string"
      and comma :: char and line buf :: string and parsed :: "string list"
    assume "line \<noteq> []" and "(line', x) = readLine rest" and "(eof, rest') = x"
    then have "readLine rest = (line', eof, rest')"
      by simp
    from rl [OF this] \<open>line \<noteq> []\<close>
    show "(Inr (comma, line', rest', buf @ line, parsed), Inr (comma, line, rest, buf, parsed))
          \<in> measure (\<lambda>a. case a of
            Inl (comma, line, rest, parsed) \<Rightarrow> length line + length rest
          | Inr (comma, line, rest, buf, parsed) \<Rightarrow> length line + length rest)"
      by (cases line) auto
  qed (auto simp: dw dw2)
qed

declare parseField.simps [simp del] quotedField.simps [simp del]

text \<open>
  \<^verbatim>\<open>readRecord\<close>: the delimiter check, the next non-empty line, the fields of the record and
  the check of the number of fields.  \<open>fieldsPerRecord\<close> is the reader's field of that name:
  0 until the first record sets it.  The result is the record or the error, the new
  \<open>fieldsPerRecord\<close> and the unread input.  \<^verbatim>\<open>ReadAll\<close> stops at the first error, so the
  value that \<open>fieldsPerRecord\<close> has after a parse error is never read; it is returned
  unchanged here.
\<close>

definition readRecord :: "char \<Rightarrow> nat \<Rightarrow> string \<Rightarrow> (error + string list) \<times> nat \<times> string" where
  "readRecord comma fieldsPerRecord inp =
     (if \<not> validDelim comma then (Inl csv_ErrInvalidDelim, fieldsPerRecord, inp)
      else
        (case nextLine inp of
           (line, eof, rest) \<Rightarrow>
             if eof then (Inl io_EOF, fieldsPerRecord, rest)
             else
               (case parseField comma line rest [] of
                  (Inl err, rest') \<Rightarrow> (Inl err, fieldsPerRecord, rest')
                | (Inr dst, rest') \<Rightarrow>
                    if fieldsPerRecord > 0 then
                      (if length dst \<noteq> fieldsPerRecord
                       then (Inl csv_ErrFieldCount, fieldsPerRecord, rest')
                       else (Inr dst, fieldsPerRecord, rest'))
                    else (Inr dst, length dst, rest'))))"

text \<open>
  \<^verbatim>\<open>ReadAll\<close> reads records until \<^verbatim>\<open>io.EOF\<close>, which is not reported as an error; any other
  error discards the records read so far.
\<close>

function ReadAll_loop ::
  "char \<Rightarrow> nat \<Rightarrow> string \<Rightarrow> string list list \<Rightarrow> error + string list list" where
  "ReadAll_loop comma fieldsPerRecord inp records =
     (case readRecord comma fieldsPerRecord inp of
        (Inl err, fieldsPerRecord', rest) \<Rightarrow> if err = io_EOF then Inr records else Inl err
      | (Inr record, fieldsPerRecord', rest) \<Rightarrow>
          ReadAll_loop comma fieldsPerRecord' rest (records @ [record]))"
  by pat_completeness auto
termination
proof (relation "measure (\<lambda>(comma, fieldsPerRecord, inp, records). length inp)")
  show "wf (measure (\<lambda>(comma, fieldsPerRecord, inp, records). length inp))"
    by simp
next
  fix comma :: char and fieldsPerRecord fieldsPerRecord' :: nat and inp rest :: string
    and records :: "string list list" and x :: "error + string list"
    and y :: "nat \<times> string" and r :: "string list"
  assume "(x, y) = readRecord comma fieldsPerRecord inp" and "x = Inr r"
    and "(fieldsPerRecord', rest) = y"
  then have rr: "readRecord comma fieldsPerRecord inp = (Inr r, fieldsPerRecord', rest)"
    by simp
  have rl: "length l + length t \<le> length s" if "readLine s = (l, e, t)" for s l t e
  proof -
    have "length (takeWhile (\<lambda>c. c \<noteq> LF) s) + length (dropWhile (\<lambda>c. c \<noteq> LF) s) = length s"
      by (metis length_append takeWhile_dropWhile_id)
    with that show ?thesis
      by (cases "dropWhile (\<lambda>c. c \<noteq> LF) s") (auto simp: readLine_def Let_def split: if_splits)
  qed
  have nl: "nextLine s = (l, False, t) \<Longrightarrow> length l + length t \<le> length s \<and> l \<noteq> []"
    for s l t
  proof (induction s rule: nextLine.induct)
    case (1 s)
    obtain l0 e0 t0 where r0: "readLine s = (l0, e0, t0)"
      by (cases "readLine s") auto
    show ?case
    proof (cases "\<not> e0 \<and> length l0 = lengthNL l0")
      case True
      with r0 1 have "length l + length t \<le> length t0 \<and> l \<noteq> []"
        by (subst (asm) (2) nextLine.simps) auto
      with rl [OF r0] show ?thesis by simp
    next
      case False
      with r0 "1.prems" have "l = l0" "t = t0" "e0 = False"
        by (subst (asm) nextLine.simps; auto)+
      with False rl [OF r0] show ?thesis by (auto simp: lengthNL_def)
    qed
  qed
  have pf: "parseField c l t fs = (res, t') \<Longrightarrow> length t' \<le> length t"
    and "quotedField c l t b fs = (res, t') \<Longrightarrow> length t' \<le> length t"
    for c l t fs b res t'
  proof (induction c l t fs and c l t b fs arbitrary: res t' and res t'
      rule: parseField_quotedField.induct)
    case (1 comma line rest parsed)
    from "1.prems" "1.IH" show ?case
      by (subst (asm) parseField.simps) (auto simp: Let_def split: if_splits)
  next
    case (2 comma line rest buf parsed)
    obtain l0 e0 t0 where r0: "readLine rest = (l0, e0, t0)"
      by (cases "readLine rest") auto
    from "2.prems" r0 rl [OF r0] "2.IH" show ?case
      by (subst (asm) quotedField.simps) (fastforce simp: Let_def split: if_splits)
  qed
  obtain line eof rest0 where n: "nextLine inp = (line, eof, rest0)"
    by (cases "nextLine inp") auto
  obtain res rest1 where p: "parseField comma line rest0 [] = (res, rest1)"
    by (cases "parseField comma line rest0 []") auto
  from rr n p have "eof = False" and "rest = rest1"
    by (auto simp: readRecord_def split: if_splits sum.splits)
  with n p nl [of inp line rest0] pf [of comma line rest0 "[]" res rest1]
  have "length rest < length inp"
    by (cases line) auto
  then show "((comma, fieldsPerRecord', rest, records @ [r]),
              (comma, fieldsPerRecord, inp, records))
             \<in> measure (\<lambda>(comma, fieldsPerRecord, inp, records). length inp)"
    by simp
qed

declare ReadAll_loop.simps [simp del]

definition csv_ReadAll :: "char \<Rightarrow> string \<Rightarrow> error + string list list" where
  "csv_ReadAll comma inp = ReadAll_loop comma 0 inp []"

section \<open>The identifier codec\<close>

record fileFormatID =
  DatabaseName :: string
  SchemaName :: string
  FileFormatName :: string

definition fileFormatIDDelimiter :: char where
  "fileFormatIDDelimiter = CHR ''|''"

text \<open>
  Modelled from the spec: the constant \<^verbatim>\<open>stageIDDelimiter\<close>, which \<^verbatim>\<open>String()\<close> gives the
  writer as its delimiter, is declared in a file of the package that is not among the
  sources.  The specification gives the persisted format as
  \<^verbatim>\<open><database>|<schema>|<name>\<close>, with \<^verbatim>\<open>|\<close> as field separator.
\<close>

definition stageIDDelimiter :: char where
  "stageIDDelimiter = CHR ''|''"

text \<open>
  \<^verbatim>\<open>String()\<close> writes the one record of the three names and returns the buffer after
  \<^verbatim>\<open>strings.TrimSpace\<close>.
\<close>

definition fileFormatID_String :: "fileFormatID \<Rightarrow> error + string" where
  "fileFormatID_String fid =
     (case csv_WriteAll stageIDDelimiter
             [[DatabaseName fid, SchemaName fid, FileFormatName fid]] of
        Inl err \<Rightarrow> Inl err
      | Inr buf \<Rightarrow> Inr (strings_TrimSpace buf))"

definition fileFormatIDFromString :: "string \<Rightarrow> error + fileFormatID" where
  "fileFormatIDFromString stringID =
     (case csv_ReadAll fileFormatIDDelimiter stringID of
        Inl err \<Rightarrow> Inl (Errorf ''Not CSV compatible'')
      | Inr lines \<Rightarrow>
          if length lines \<noteq> 1 then Inl (Errorf ''1 line per file format'')
          else if length (lines ! 0) \<noteq> 3 then Inl (Errorf ''3 fields allowed'')
          else Inr \<lparr> DatabaseName = lines ! 0 ! 0,
                     SchemaName = lines ! 0 ! 1,
                     FileFormatName = lines ! 0 ! 2 \<rparr>)"

section \<open>Notions used to state the round trip of the identifier codec\<close>

text \<open>
  The first line of an input, up to and including its line feed, and the input after it:
  what \<^verbatim>\<open>readLine\<close> returns on an input without carriage return.
\<close>

definition firstLine :: "string \<Rightarrow> string" where
  "firstLine X = (if LF \<in> set X then takeWhile (\<lambda>c. c \<noteq> LF) X @ [LF] else X)"

definition afterFirstLine :: "string \<Rightarrow> string" where
  "afterFirstLine X = tl (dropWhile (\<lambda>c. c \<noteq> LF) X)"

text \<open>
  The line that \<^verbatim>\<open>Writer.Write\<close> writes for a record, without the final line feed.
\<close>

definition encodeRecord :: "char \<Rightarrow> string list \<Rightarrow> string" where
  "encodeRecord comma fs = strings_Join (map (writeField comma) fs) [comma]"

text \<open>
  The last rune of a string is a space: the counterpart of \<^const>\<open>startsWithSpace\<close>.
\<close>

definition endsWithSpace :: "string \<Rightarrow> bool" where
  "endsWithSpace s = (leading_match (map rev space_encodings) (rev s) \<noteq> None)"

section \<open>The database handle\<close>

text \<open>One row of the DESCRIBE result, as \<^verbatim>\<open>rows.StructScan\<close> fills it.\<close>

record descFileFormatRow =
  Property :: string
  PropertyType :: string
  PropertyValue :: string
  PropertyDefault :: string

text \<open>
  Modelled from the spec: the helpers \<^verbatim>\<open>snowflake.Exec\<close> and \<^verbatim>\<open>snowflake.Query\<close> are in a file
  of the package that is not among the sources.  The specification describes the database
  handle as an opaque synchronous interface supplying \<^verbatim>\<open>Exec(sql) -> (result, error)\<close> and
  \<^verbatim>\<open>Query(sql) -> (rows, error)\<close>.  The handle is modelled by its answers: for a statement
  the error of \<^verbatim>\<open>Exec\<close>, if any; for a query its error, or the rows that \<^verbatim>\<open>rows.Next()\<close>
  yields, each either scanned into a row or failing with the error of \<^verbatim>\<open>StructScan\<close>.
  \<open>executed\<close> is the list of the statements that were sent through \<^verbatim>\<open>Exec\<close>.
\<close>

record sql_DB =
  exec_response :: "string \<Rightarrow> error option"
  query_response :: "string \<Rightarrow> error + (error + descFileFormatRow) list"
  executed :: "string list"

definition Exec :: "sql_DB \<Rightarrow> string \<Rightarrow> sql_DB \<times> error option" where
  "Exec sqldb stmt = (sqldb\<lparr>executed := executed sqldb @ [stmt]\<rparr>, exec_response sqldb stmt)"

definition Query :: "sql_DB \<Rightarrow> string \<Rightarrow> error + (error + descFileFormatRow) list" where
  "Query sqldb stmt = query_response sqldb stmt"

section \<open>Parsing booleans and integers\<close>

text \<open>\<^verbatim>\<open>strconv.ParseBool\<close> accepts twelve spellings and nothing else.\<close>

definition ParseBool :: "string \<Rightarrow> error + bool" where
  "ParseBool str =
     (if str \<in> set [''1'', ''t'', ''T'', ''true'', ''TRUE'', ''True''] then Inr True
      else if str \<in> set [''0'', ''f'', ''F'', ''false'', ''FALSE'', ''False''] then Inr False
      else Inl (NumError ''ParseBool'' str ''invalid syntax''))"

text \<open>
  \<^verbatim>\<open>strconv.Atoi\<close> on a platform whose \<^verbatim>\<open>int\<close> has 64 bits.  The digits are read from left
  to right into an unsigned 64-bit number: a byte that is not a decimal digit is a syntax
  error, a number that no longer fits 64 bits is a range error, whichever comes first.
  The signed result must lie between \<open>- 2^63\<close> and \<open>2^63 - 1\<close>.  (The fast path of \<^verbatim>\<open>Atoi\<close>
  for inputs of fewer than 19 bytes computes the same result.)
\<close>

definition isDigit :: "char \<Rightarrow> bool" where
  "isDigit c = (48 \<le> (of_char c :: nat) \<and> (of_char c :: nat) \<le> 57)"

fun ParseUint_loop :: "string \<Rightarrow> nat \<Rightarrow> string + nat" where
  "ParseUint_loop [] n = Inr n"
| "ParseUint_loop (c # cs) n =
     (if \<not> isDigit c then Inl ''invalid syntax''
      else if n * 10 + (of_char c - 48) > 2 ^ 64 - 1 then Inl ''value out of range''
      else ParseUint_loop cs (n * 10 + (of_char c - 48)))"

definition Atoi :: "string \<Rightarrow> error + int" where
  "Atoi s =
     (let neg = (s \<noteq> [] \<and> hd s = CHR ''-'');
          digits = (if s \<noteq> [] \<and> (hd s = CHR ''+'' \<or> hd s = CHR ''-'') then tl s else s)
      in if digits = [] then Inl (NumError ''Atoi'' s ''invalid syntax'')
         else
           (case ParseUint_loop digits 0 of
              Inl reason \<Rightarrow> Inl (NumError ''Atoi'' s reason)
            | Inr un \<Rightarrow>
                if \<not> neg \<and> un \<ge> 2 ^ 63 then Inl (NumError ''Atoi'' s ''value out of range'')
                else if neg \<and> un > 2 ^ 63 then Inl (NumError ''Atoi'' s ''value out of range'')
                else Inr (if neg then - int un else int un)))"

section \<open>The result parser\<close>

text \<open>
  \<^verbatim>\<open>fileFormatData\<close>.  \<^verbatim>\<open>NullIf\<close> is a slice: \<open>None\<close> is the nil slice.  \<^verbatim>\<open>SkipHeader\<close> is an
  \<^verbatim>\<open>int\<close>, which the parser only stores.
\<close>

record fileFormatData =
  Type :: string
  Compression :: string
  BinaryAsText :: bool
  TrimSpace :: bool
  NullIf :: "string list option"
  RecordDelimiter :: string
  FieldDelimiter :: string
  FileExtension :: string
  SkipHeader :: int
  SkipBlankLines :: bool
  DateFormat :: string
  TimeFormat :: string
  TimestampFormat :: string
  BinaryFormat :: string
  Escape :: string
  EscapeUnenclosedField :: string
  FieldOptionallyEnclosedBy :: string
  ErrorOnColumnCountMismatch :: bool
  ReplaceInvalidCharacters :: bool
  ValidateUtf8 :: bool
  EmptyFieldAsNull :: bool
  SkipByteOrderMark :: bool
  Encoding :: string

text \<open>\<^verbatim>\<open>&fileFormatData{}\<close>: every field has its zero value.\<close>

definition fileFormatData_zero :: fileFormatData where
  "fileFormatData_zero =
     \<lparr> Type = [], Compression = [], BinaryAsText = False, TrimSpace = False, NullIf = None,
       RecordDelimiter = [], FieldDelimiter = [], FileExtension = [], SkipHeader = 0,
       SkipBlankLines = False, DateFormat = [], TimeFormat = [], TimestampFormat = [],
       BinaryFormat = [], Escape = [], EscapeUnenclosedField = [],
       FieldOptionallyEnclosedBy = [], ErrorOnColumnCountMismatch = False,
       ReplaceInvalidCharacters = False, ValidateUtf8 = False, EmptyFieldAsNull = False,
       SkipByteOrderMark = False, Encoding = [] \<rparr>"

text \<open>
  The NULL_IF case of the \<^verbatim>\<open>switch\<close>: the value is trimmed of the characters \<^verbatim>\<open>[\<close>, \<^verbatim>\<open>"\<close> and
  \<^verbatim>\<open>]\<close> at both ends; if nothing is left the list is nil, otherwise the rest is split at
  the commas and each part is trimmed of space and unescaped.
\<close>

definition parseNullIf :: "string \<Rightarrow> string list option" where
  \<open>parseNullIf v =
     (let strs = strings_Trim v ''["]''
      in if length strs < 1 then None
         else Some (map (\<lambda>str. UnescapeString (strings_TrimSpace str))
                        (strings_Split strs CHR '','')))\<close>

text \<open>
  The body of the loop over the rows: the \<^verbatim>\<open>switch\<close> on the property name, in the order of
  its cases.  It has no default case.  The result is the updated record, or the error
  that makes \<^verbatim>\<open>DescFileFormat\<close> return.
\<close>

definition descRow :: "descFileFormatRow \<Rightarrow> fileFormatData \<Rightarrow> error + fileFormatData" where
  "descRow row result =
     (if Property row = ''TYPE'' then Inr (result\<lparr>Type := PropertyValue row\<rparr>)
      else if Property row = ''COMPRESSION'' then Inr (result\<lparr>Compression := PropertyValue row\<rparr>)
      else if Property row = ''BINARY_AS_TEXT'' then
        (case ParseBool (PropertyValue row) of
           Inl err \<Rightarrow> Inl err | Inr v \<Rightarrow> Inr (result\<lparr>BinaryAsText := v\<rparr>))
      else if Property row = ''TRIM_SPACE'' then
        (case ParseBool (PropertyValue row) of
           Inl err \<Rightarrow> Inl err | Inr v \<Rightarrow> Inr (result\<lparr>TrimSpace := v\<rparr>))
      else if Property row = ''NULL_IF'' then
        Inr (result\<lparr>NullIf := parseNullIf (PropertyValue row)\<rparr>)
      else if Property row = ''RECORD_DELIMITER'' then
        Inr (result\<lparr>RecordDelimiter := PropertyValue row\<rparr>)
      else if Property row = ''FIELD_DELIMITER'' then
        Inr (result\<lparr>FieldDelimiter := PropertyValue row\<rparr>)
      else if Property row = ''FILE_EXTENSION'' then
        Inr (result\<lparr>FileExtension := PropertyValue row\<rparr>)
      else if Property row = ''SKIP_HEADER'' then
        (case Atoi (PropertyValue row) of
           Inl err \<Rightarrow> Inl err | Inr v \<Rightarrow> Inr (result\<lparr>SkipHeader := v\<rparr>))
      else if Property row = ''SKIP_BLANK_LINES'' then
        (case ParseBool (PropertyValue row) of
           Inl err \<Rightarrow> Inl err | Inr v \<Rightarrow> Inr (result\<lparr>SkipBlankLines := v\<rparr>))
      else if Property row = ''DATE_FORMAT'' then Inr (result\<lparr>DateFormat := PropertyValue row\<rparr>)
      else if Property row = ''TIME_FORMAT'' then Inr (result\<lparr>TimeFormat := PropertyValue row\<rparr>)
      else if Property row = ''TIMESTAMP_FORMAT'' then
        Inr (result\<lparr>TimestampFormat := PropertyValue row\<rparr>)
      else if Property row = ''BINARY_FORMAT'' then
        Inr (result\<lparr>BinaryFormat := PropertyValue row\<rparr>)
      else if Property row = ''ESCAPE'' then Inr (result\<lparr>Escape := PropertyValue row\<rparr>)
      else if Property row = ''ESCAPE_UNENCLOSED_FIELD'' then
        Inr (result\<lparr>EscapeUnenclosedField := PropertyValue row\<rparr>)
      else if Property row = ''FIELD_OPTIONALLY_ENCLOSED_BY'' then
        Inr (result\<lparr>FieldOptionallyEnclosedBy := PropertyValue row\<rparr>)
      else if Property row = ''ERROR_ON_COLUMN_COUNT_MISMATCH'' then
        (case ParseBool (PropertyValue row) of
           Inl err \<Rightarrow> Inl err | Inr v \<Rightarrow> Inr (result\<lparr>ErrorOnColumnCountMismatch := v\<rparr>))
      else if Property row = ''REPLACE_INVALID_CHARACTERS'' then
        (case ParseBool (PropertyValue row) of
           Inl err \<Rightarrow> Inl err | Inr v \<Rightarrow> Inr (result\<lparr>ReplaceInvalidCharacters := v\<rparr>))
      else if Property row = ''VALIDATE_UTF8'' then
        (case ParseBool (PropertyValue row) of
           Inl err \<Rightarrow> Inl err | Inr v \<Rightarrow> Inr (result\<lparr>ValidateUtf8 := v\<rparr>))
      else if Property row = ''EMPTY_FIELD_AS_NULL'' then
        (case ParseBool (PropertyValue row) of
           Inl err \<Rightarrow> Inl err | Inr v \<Rightarrow> Inr (result\<lparr>EmptyFieldAsNull := v\<rparr>))
      else if Property row = ''SKIP_BYTE_ORDER_MARK'' then
        (case ParseBool (PropertyValue row) of
           Inl err \<Rightarrow> Inl err | Inr v \<Rightarrow> Inr (result\<lparr>SkipByteOrderMark := v\<rparr>))
      else if Property row = ''ENCODING'' then Inr (result\<lparr>Encoding := PropertyValue row\<rparr>)
      else Inr result)"

text \<open>
  The loop \<^verbatim>\<open>for rows.Next()\<close>: a scan error or a parse error returns the zero record with
  the error; after the last row the result is returned without error.
\<close>

fun descRows :: "(error + descFileFormatRow) list \<Rightarrow> fileFormatData \<Rightarrow> fileFormatData \<times> error option"
  where
  "descRows [] result = (result, None)"
| "descRows (scanned # rows) result =
     (case scanned of
        Inl err \<Rightarrow> (fileFormatData_zero, Some err)
      | Inr row \<Rightarrow>
          (case descRow row result of
             Inl err \<Rightarrow> (fileFormatData_zero, Some err)
           | Inr result' \<Rightarrow> descRows rows result'))"

definition DescFileFormat :: "sql_DB \<Rightarrow> string \<Rightarrow> fileFormatData \<times> error option" where
  "DescFileFormat sqldb query =
     (case Query sqldb query of
        Inl err \<Rightarrow> (fileFormatData_zero, Some err)
      | Inr rows \<Rightarrow> descRows rows fileFormatData_zero)"

text \<open>
  The property names the \<^verbatim>\<open>switch\<close> has a case for; the names whose value is parsed as a
  boolean; a row whose value does not parse; a row the \<^verbatim>\<open>switch\<close> has no case for.
\<close>

definition recognizedProperties :: "string list" where
  "recognizedProperties =
     [''TYPE'', ''COMPRESSION'', ''BINARY_AS_TEXT'', ''TRIM_SPACE'', ''NULL_IF'',
      ''RECORD_DELIMITER'', ''FIELD_DELIMITER'', ''FILE_EXTENSION'', ''SKIP_HEADER'',
      ''SKIP_BLANK_LINES'', ''DATE_FORMAT'', ''TIME_FORMAT'', ''TIMESTAMP_FORMAT'',
      ''BINARY_FORMAT'', ''ESCAPE'', ''ESCAPE_UNENCLOSED_FIELD'',
      ''FIELD_OPTIONALLY_ENCLOSED_BY'', ''ERROR_ON_COLUMN_COUNT_MISMATCH'',
      ''REPLACE_INVALID_CHARACTERS'', ''VALIDATE_UTF8'', ''EMPTY_FIELD_AS_NULL'',
      ''SKIP_BYTE_ORDER_MARK'', ''ENCODING'']"

definition booleanProperties :: "string list" where
  "booleanProperties =
     [''BINARY_AS_TEXT'', ''TRIM_SPACE'', ''SKIP_BLANK_LINES'',
      ''ERROR_ON_COLUMN_COUNT_MISMATCH'', ''REPLACE_INVALID_CHARACTERS'', ''VALIDATE_UTF8'',
      ''EMPTY_FIELD_AS_NULL'', ''SKIP_BYTE_ORDER_MARK'']"

definition unparsable :: "descFileFormatRow \<Rightarrow> bool" where
  "unparsable row =
     ((Property row \<in> set booleanProperties \<and> isl (ParseBool (PropertyValue row)))
      \<or> (Property row = ''SKIP_HEADER'' \<and> isl (Atoi (PropertyValue row))))"

definition unrecognized :: "error + descFileFormatRow \<Rightarrow> bool" where
  "unrecognized scanned =
     (case scanned of
        Inl err \<Rightarrow> False
      | Inr row \<Rightarrow> Property row \<notin> set recognizedProperties)"

section \<open>Deleting the resource\<close>

text \<open>
  Of \<^verbatim>\<open>schema.ResourceData\<close> the delete operation reads and writes the ID only:
  \<^verbatim>\<open>data.Id()\<close> and \<^verbatim>\<open>data.SetId(v)\<close>.
\<close>

record ResourceData =
  resourceId :: string

definition ResourceData_Id :: "ResourceData \<Rightarrow> string" where
  "ResourceData_Id data = resourceId data"

definition SetId :: "string \<Rightarrow> ResourceData \<Rightarrow> ResourceData" where
  "SetId v data = data\<lparr>resourceId := v\<rparr>"

text \<open>
  \<^verbatim>\<open>DeleteFileFormat\<close> returns an error or nil; the model also returns the resource data
  and the database handle as the call leaves them.
\<close>

definition DeleteFileFormat ::
  "ResourceData \<Rightarrow> sql_DB \<Rightarrow> ResourceData \<times> sql_DB \<times> error option" where
  "DeleteFileFormat data sqldb =
     (case fileFormatIDFromString (ResourceData_Id data) of
        Inl err \<Rightarrow> (data, sqldb, Some err)
      | Inr fileFormatID \<Rightarrow>
          (let builder = FileFormat (FileFormatName fileFormatID) (DatabaseName fileFormatID)
                           (SchemaName fileFormatID)
           in case Exec sqldb (Drop builder) of
                (sqldb', Some err) \<Rightarrow>
                  (data, sqldb',
                   Some (Wrapf err (''error deleting file format '' @ ResourceData_Id data)))
              | (sqldb', None) \<Rightarrow> (SetId [] data, sqldb', None)))"

section \<open>Properties of the statement builder\<close>

lemmas With_defs =
  WithType_def WithComment_def WithCompression_def WithBinaryAsText_def
  WithTrimSpace_def WithNullIf_def WithRecordDelimiter_def WithFieldDelimiter_def
  WithFileExtension_def WithSkipHeader_def WithSkipBlankLines_def WithDateFormat_def
  WithTimeFormat_def WithTimestampFormat_def WithBinaryFormat_def WithEscape_def
  WithEscapeUnenclosedField_def WithFieldOptionallyEnclosedBy_def
  WithErrorOnColumnCountMismatch_def WithReplaceInvalidCharacters_def
  WithValidateUtf8_def WithEmptyFieldAsNull_def WithSkipByteOrderMark_def WithEncoding_def

subsection \<open>\<open>Create\<close> is its clause list\<close>

lemma concat_map_filter_Cons:
  "concat (map f (filter P (x # xs))) = (if P x then f x else []) @ concat (map f (filter P xs))"
  by simp

text \<open>
  The chain of \<^verbatim>\<open>if\<close> statements of \<^verbatim>\<open>Create\<close> writes the clauses of the emitted
  properties in the order of \<^const>\<open>property_order\<close>.
\<close>

lemma Create_render: "Create fb = render EscapeString fb"
  unfolding Create_def render_def property_order_def quoteNulls_def
  by (simp only: concat_map_filter_Cons emitted.simps clause.simps filter.simps(1) list.map(1)
      concat.simps(1) append_Nil2)

lemma emitted_FileFormat: "emitted p (FileFormat n d s) = False"
  by (cases p) (simp_all add: FileFormat_def)

lemma emitted_apply_call:
  "emitted p (apply_call c fb) = (if call_property c = p then call_nonempty c else emitted p fb)"
  by (cases c; cases p; simp add: With_defs)

lemma QualifiedName_apply_call: "QualifiedName (apply_call c fb) = QualifiedName fb"
  by (cases c) (simp_all add: With_defs QualifiedName_def)

lemma run_calls_snoc: "run_calls (cs @ [c]) fb = apply_call c (run_calls cs fb)"
  by (simp add: run_calls_def)

lemma run_calls_append: "run_calls (cs @ ds) fb = run_calls ds (run_calls cs fb)"
  by (simp add: run_calls_def)

lemma QualifiedName_run_calls: "QualifiedName (run_calls cs fb) = QualifiedName fb"
  by (induction cs rule: rev_induct)
     (simp_all add: run_calls_snoc QualifiedName_apply_call run_calls_def)

lemma clause_expected_Nil: "clause_expected p [] = False"
  by (simp add: clause_expected_def)

lemma clause_expected_snoc:
  "clause_expected p (cs @ [c]) =
     (if call_property c = p then call_nonempty c else clause_expected p cs)"
  by (cases "filter (\<lambda>c. call_property c = p) cs") (simp_all add: clause_expected_def)

lemma emitted_run_calls:
  "emitted p (run_calls cs (FileFormat n d s)) = clause_expected p cs"
proof (induction cs rule: rev_induct)
  case Nil
  show ?case by (simp add: run_calls_def emitted_FileFormat clause_expected_Nil)
next
  case (snoc c cs)
  then show ?case
    by (simp only: run_calls_snoc emitted_apply_call clause_expected_snoc)
qed

subsection \<open>Which clauses are emitted\<close>

text \<open>
  Claim C2, as stated, says that \<^verbatim>\<open>Create()\<close> contains the clause of an optional property
  if and only if the property was explicitly provided by its \<^verbatim>\<open>With...\<close> call, for every
  optional property.  It fails for the string properties: \<^verbatim>\<open>WithComment("")\<close> provides the
  comment explicitly, and \<^verbatim>\<open>Create()\<close> writes no COMMENT clause.
\<close>

theorem create_empty_comment_counterexample:
  \<open>P_COMMENT \<in> set (map call_property [CallWithComment ''''])
   \<and> Create (run_calls [CallWithComment ''''] (FileFormat ''n'' ''d'' ''s''))
       = ''CREATE FILE FORMAT "d"."s"."n"''\<close>
  by (simp add: run_calls_def WithComment_def FileFormat_def Create_def QualifiedName_def)

text \<open>
  Claim C2, amended: for every sequence of \<^verbatim>\<open>With...\<close> calls on a fresh builder,
  \<^verbatim>\<open>Create()\<close> consists of the header and the clauses of exactly the properties whose
  setter was called and whose last call passed a non-empty value.  A boolean or integer
  setter always passes one (so a boolean set to \<^verbatim>\<open>false\<close> keeps its clause, and a property
  never set has none); a string or list setter passes one unless it is given the empty
  string or the empty list.
\<close>

theorem create_clauses_follow_calls:
  "Create (run_calls cs (FileFormat n d s)) =
     ''CREATE FILE FORMAT '' @ QualifiedName (FileFormat n d s)
     @ concat (map (\<lambda>p. clause EscapeString p (run_calls cs (FileFormat n d s)))
                   (filter (\<lambda>p. clause_expected p cs) property_order))"
  by (simp only: Create_render render_def QualifiedName_run_calls emitted_run_calls)

text \<open>
  The earlier snapshot of \<^verbatim>\<open>Create\<close> writes the two boolean clauses for a fresh builder; the
  builder with the \<open>set...\<close> flags, which the claims are about, does not.
\<close>

lemma Create_snapshot_fresh:
  \<open>Create_snapshot (FileFormat n d s)
   = ''CREATE FILE FORMAT "'' @ d @ ''"."'' @ s @ ''"."'' @ n
     @ ''" BINARY_AS_TEXT = false TRIM_SPACE = false''\<close>
  by (simp add: Create_snapshot_def FileFormat_def QualifiedName_def fmt_bool_def)

text \<open>
  Claim C3: for a builder constructed from (name, database, schema) on which no optional
  property was set, \<^verbatim>\<open>Create()\<close> is exactly
  \<^verbatim>\<open>CREATE FILE FORMAT "<db>"."<schema>"."<name>"\<close>, with no trailing clause.
\<close>

theorem create_no_optional_properties:
  \<open>Create (FileFormat n d s) = ''CREATE FILE FORMAT "'' @ d @ ''"."'' @ s @ ''"."'' @ n @ ''"''\<close>
  by (simp add: Create_def FileFormat_def QualifiedName_def)

subsection \<open>The order of the clauses\<close>

lemma apply_call_commute:
  "call_property x \<noteq> call_property y \<Longrightarrow>
   apply_call x (apply_call y fb) = apply_call y (apply_call x fb)"
  by (cases x; cases y; simp add: With_defs)

lemma run_calls_permute:
  assumes "mset cs' = mset cs" and "distinct (map call_property cs)"
  shows "run_calls cs' fb = run_calls cs fb"
proof -
  have "apply_call x \<circ> apply_call y = apply_call y \<circ> apply_call x"
    if "x \<in> set cs'" "y \<in> set cs'" for x y
  proof (cases "x = y")
    case True
    then show ?thesis by simp
  next
    case False
    from that assms(1) have "x \<in> set cs" "y \<in> set cs"
      by (metis set_mset_mset)+
    with False assms(2) have "call_property x \<noteq> call_property y"
      by (meson distinct_map inj_onD)
    then show ?thesis
      by (auto simp: fun_eq_iff apply_call_commute)
  qed
  then have "fold apply_call cs' = fold apply_call cs"
    using assms(1) by (intro fold_multiset_equiv) auto
  then show ?thesis
    by (simp add: run_calls_def)
qed

text \<open>
  Claim C4: for every builder state, the clauses of \<^verbatim>\<open>Create()\<close> appear in the fixed
  declaration order type, comment, compression, binary_as_text, trim_space, null_if,
  record_delimiter, field_delimiter, file_extension, skip_header, skip_blank_lines,
  date_format, time_format, timestamp_format, binary_format, escape,
  escape_unenclosed_field, field_optionally_enclosed_by, error_on_column_count_mismatch,
  replace_invalid_characters, validate_utf8, empty_field_as_null, skip_byte_order_mark,
  encoding (the list \<^const>\<open>property_order\<close>), and the order in which the setters of
  different properties were called does not change the statement.
\<close>

theorem create_fixed_clause_order:
  "Create fb =
     ''CREATE FILE FORMAT '' @ QualifiedName fb
     @ concat (map (\<lambda>p. clause EscapeString p fb) (filter (\<lambda>p. emitted p fb) property_order))
   \<and> (mset cs' = mset cs \<and> distinct (map call_property cs)
        \<longrightarrow> Create (run_calls cs' fb) = Create (run_calls cs fb))"
proof (intro conjI impI)
  show "Create fb =
     ''CREATE FILE FORMAT '' @ QualifiedName fb
     @ concat (map (\<lambda>p. clause EscapeString p fb) (filter (\<lambda>p. emitted p fb) property_order))"
    by (simp only: Create_render render_def)
next
  assume "mset cs' = mset cs \<and> distinct (map call_property cs)"
  then have "run_calls cs' fb = run_calls cs fb"
    by (intro run_calls_permute) simp_all
  then show "Create (run_calls cs' fb) = Create (run_calls cs fb)"
    by (rule arg_cong)
qed

theorem create_fixed_clause_order_witness:
  \<open>mset [CallWithEncoding ''UTF8'', CallWithTrimSpace False, CallWithType ''csv'']
     = mset [CallWithType ''csv'', CallWithTrimSpace False, CallWithEncoding ''UTF8'']
   \<and> distinct (map call_property
         [CallWithType ''csv'', CallWithTrimSpace False, CallWithEncoding ''UTF8''])
   \<and> Create (run_calls [CallWithEncoding ''UTF8'', CallWithTrimSpace False, CallWithType ''csv'']
         (FileFormat ''n'' ''d'' ''s''))
       = Create (run_calls [CallWithType ''csv'', CallWithTrimSpace False, CallWithEncoding ''UTF8'']
         (FileFormat ''n'' ''d'' ''s''))\<close>
  using create_fixed_clause_order
    [of "FileFormat ''n'' ''d'' ''s''"
        "[CallWithEncoding ''UTF8'', CallWithTrimSpace False, CallWithType ''csv'']"
        "[CallWithType ''csv'', CallWithTrimSpace False, CallWithEncoding ''UTF8'']"]
  by simp

subsection \<open>An empty null-if list\<close>

lemma nullIf_apply_call:
  "call_property c \<noteq> P_NULL_IF \<Longrightarrow> nullIf (apply_call c fb) = nullIf fb"
  by (cases c) (simp_all add: With_defs)

lemma nullIf_run_calls:
  "list_all (\<lambda>c. call_property c \<noteq> P_NULL_IF) cs \<Longrightarrow> nullIf (run_calls cs fb) = nullIf fb"
  by (induction cs rule: rev_induct)
     (simp_all add: run_calls_snoc nullIf_apply_call run_calls_def)

lemma apply_call_nullIf_update:
  "call_property c \<noteq> P_NULL_IF \<Longrightarrow>
   apply_call c (fb\<lparr>nullIf := v\<rparr>) = (apply_call c fb)\<lparr>nullIf := v\<rparr>"
  by (cases c) (simp_all add: With_defs)

lemma call_property_NULL_IF:
  "call_property c = P_NULL_IF \<Longrightarrow> \<exists>w. c = CallWithNullIf w"
  by (cases c) simp_all

text \<open>
  Up to the null-if list, a builder is the one built by the calls of the other setters.
\<close>

lemma run_calls_without_nullIf_calls:
  "(run_calls cs fb)\<lparr>nullIf := v\<rparr>
   = (run_calls (filter (\<lambda>c. call_property c \<noteq> P_NULL_IF) cs) fb)\<lparr>nullIf := v\<rparr>"
proof (induction cs rule: rev_induct)
  case Nil
  show ?case by simp
next
  case (snoc c cs)
  show ?case
  proof (cases "call_property c = P_NULL_IF")
    case True
    then obtain w where "c = CallWithNullIf w"
      using call_property_NULL_IF by blast
    with snoc True show ?thesis
      by (simp add: run_calls_snoc WithNullIf_def)
  next
    case False
    have "(run_calls (cs @ [c]) fb)\<lparr>nullIf := v\<rparr>
          = apply_call c ((run_calls cs fb)\<lparr>nullIf := v\<rparr>)"
      using False by (simp add: run_calls_snoc apply_call_nullIf_update)
    also have "\<dots> = apply_call c
        ((run_calls (filter (\<lambda>c. call_property c \<noteq> P_NULL_IF) cs) fb)\<lparr>nullIf := v\<rparr>)"
      by (simp only: snoc)
    also have "\<dots> = (run_calls (filter (\<lambda>c. call_property c \<noteq> P_NULL_IF) (cs @ [c])) fb)
        \<lparr>nullIf := v\<rparr>"
      using False by (simp add: run_calls_snoc apply_call_nullIf_update)
    finally show ?thesis .
  qed
qed

lemma emitted_WithNullIf_Nil:
  "emitted p (WithNullIf [] fb) = (p \<noteq> P_NULL_IF \<and> emitted p fb)"
  by (cases p) (simp_all add: WithNullIf_def)

lemma clause_WithNullIf:
  "p \<noteq> P_NULL_IF \<Longrightarrow> clause esc p (WithNullIf v fb) = clause esc p fb"
  by (cases p) (simp_all add: WithNullIf_def)

lemma QualifiedName_WithNullIf: "QualifiedName (WithNullIf v fb) = QualifiedName fb"
  by (simp add: QualifiedName_def WithNullIf_def)

text \<open>
  After any calls \<open>cs1\<close> on a fresh builder, the call with the empty list gives the builder
  that the calls of \<open>cs1\<close> other than \<^verbatim>\<open>WithNullIf\<close> give.
\<close>

lemma run_calls_empty_nullIf:
  "run_calls (cs1 @ CallWithNullIf [] # cs2) (FileFormat n d s)
   = run_calls (filter (\<lambda>c. call_property c \<noteq> P_NULL_IF) cs1 @ cs2) (FileFormat n d s)"
proof -
  let ?cs1' = "filter (\<lambda>c. call_property c \<noteq> P_NULL_IF) cs1"
  have "list_all (\<lambda>c. call_property c \<noteq> P_NULL_IF) ?cs1'"
    by (simp add: list_all_iff)
  then have "nullIf (run_calls ?cs1' (FileFormat n d s)) = []"
    by (simp add: nullIf_run_calls FileFormat_def)
  then have "(run_calls ?cs1' (FileFormat n d s))\<lparr>nullIf := []\<rparr>
             = run_calls ?cs1' (FileFormat n d s)"
    by simp
  moreover have "run_calls (cs1 @ [CallWithNullIf []]) (FileFormat n d s)
                 = (run_calls cs1 (FileFormat n d s))\<lparr>nullIf := []\<rparr>"
    by (simp add: run_calls_snoc WithNullIf_def)
  ultimately have "run_calls (cs1 @ [CallWithNullIf []]) (FileFormat n d s)
                   = run_calls ?cs1' (FileFormat n d s)"
    using run_calls_without_nullIf_calls
      [where cs = cs1 and fb = "FileFormat n d s" and v = "[]"]
    by simp
  then show ?thesis
    using run_calls_append [of "cs1 @ [CallWithNullIf []]" cs2 "FileFormat n d s"]
      run_calls_append [of ?cs1' cs2 "FileFormat n d s"]
    by simp
qed

text \<open>
  Claim C10: calling \<^verbatim>\<open>WithNullIf\<close> with a zero-length list writes no NULL_IF clause and
  leaves \<^verbatim>\<open>Create()\<close> identical to never having called \<^verbatim>\<open>WithNullIf\<close>.  For every builder
  \<open>fb\<close>, whatever its state, the statement of \<^verbatim>\<open>WithNullIf\<close> with the empty list on \<open>fb\<close> is
  the header followed by the clauses of the properties of \<open>fb\<close> other than NULL_IF, so
  the guard \<^verbatim>\<open>len(fb.nullIf) > 0\<close> keeps the clause of the empty list out; and after any
  calls \<open>cs1\<close> on a fresh builder, the call with the empty list gives the statement that
  the calls of \<open>cs1\<close> other than \<^verbatim>\<open>WithNullIf\<close> give, whatever calls \<open>cs2\<close> follow on both.
\<close>

theorem empty_null_if_same_as_unset:
  "Create (WithNullIf [] fb)
     = ''CREATE FILE FORMAT '' @ QualifiedName fb
       @ concat (map (\<lambda>p. clause EscapeString p fb)
           (filter (\<lambda>p. p \<noteq> P_NULL_IF \<and> emitted p fb) property_order))
   \<and> Create (run_calls (cs1 @ CallWithNullIf [] # cs2) (FileFormat n d s))
     = Create (run_calls (filter (\<lambda>c. call_property c \<noteq> P_NULL_IF) cs1 @ cs2)
         (FileFormat n d s))"
proof
  have "map (\<lambda>p. clause EscapeString p (WithNullIf [] fb))
          (filter (\<lambda>p. p \<noteq> P_NULL_IF \<and> emitted p fb) property_order)
        = map (\<lambda>p. clause EscapeString p fb)
          (filter (\<lambda>p. p \<noteq> P_NULL_IF \<and> emitted p fb) property_order)"
    by (rule map_cong) (simp_all add: clause_WithNullIf)
  then show "Create (WithNullIf [] fb)
     = ''CREATE FILE FORMAT '' @ QualifiedName fb
       @ concat (map (\<lambda>p. clause EscapeString p fb)
           (filter (\<lambda>p. p \<noteq> P_NULL_IF \<and> emitted p fb) property_order))"
    by (simp only: Create_render render_def emitted_WithNullIf_Nil QualifiedName_WithNullIf)
next
  show "Create (run_calls (cs1 @ CallWithNullIf [] # cs2) (FileFormat n d s))
     = Create (run_calls (filter (\<lambda>c. call_property c \<noteq> P_NULL_IF) cs1 @ cs2)
         (FileFormat n d s))"
    by (simp only: run_calls_empty_nullIf)
qed

text \<open>
  For example, with a type set before and the trim-space flag set after, the empty list
  leaves the statement without a NULL_IF clause.
\<close>

lemma empty_null_if_example:
  \<open>Create (run_calls [CallWithType ''csv'', CallWithNullIf [], CallWithTrimSpace True]
       (FileFormat ''n'' ''d'' ''s''))
   = ''CREATE FILE FORMAT "d"."s"."n" TYPE = "csv" TRIM_SPACE = true''\<close>
  by (simp add: run_calls_def With_defs FileFormat_def Create_def QualifiedName_def fmt_bool_def)

subsection \<open>Which values are escaped\<close>

lemma strings_Replace_Nil_iff:
  "new \<noteq> [] \<Longrightarrow> strings_Replace s old new = [] \<longleftrightarrow> s = []"
  by (induction s old new rule: strings_Replace.induct)
     (subst strings_Replace.simps, auto)

lemma EscapeString_Nil_iff: "EscapeString s = [] \<longleftrightarrow> s = []"
  by (simp add: EscapeString_def strings_Replace_Nil_iff)

lemma emitted_escapeProperties: "emitted p (escapeProperties fb) = emitted p fb"
  by (cases p) (simp_all add: escapeProperties_def EscapeString_Nil_iff)

lemma clause_escapeProperties:
  "clause (\<lambda>v. v) p (escapeProperties fb) = clause EscapeString p fb"
  by (cases p) (simp_all add: escapeProperties_def comp_def)

lemma QualifiedName_escapeProperties: "QualifiedName (escapeProperties fb) = QualifiedName fb"
  by (simp add: escapeProperties_def QualifiedName_def)

text \<open>
  Claim C6, as stated, says that every string embedded into a generated statement (the
  type, the compression, the name of the SHOW LIKE filter and the components of the
  qualified name among them) is passed through the escape function first.  It fails: a
  backslash in the type reaches the CREATE statement as it is, where \<^verbatim>\<open>EscapeString\<close> would
  have doubled it, and a single quote in the name reaches the LIKE literal of the SHOW
  statement and the qualified name as it is.
\<close>

theorem unescaped_values_counterexample:
  \<open>EscapeString [backslash] = [backslash, backslash]
   \<and> Create (WithType [backslash] (FileFormat ''n'' ''d'' ''s''))
       = ''CREATE FILE FORMAT "d"."s"."n" TYPE = "'' @ [backslash] @ ''"''
   \<and> EscapeString ''a'b'' \<noteq> ''a'b''
   \<and> Show (FileFormat ''a'b'' ''d'' ''s'') = ''SHOW FILE FORMATS LIKE 'a'b' IN DATABASE "d"''
   \<and> QualifiedName (FileFormat ''a'b'' ''d'' ''s'') = ''"d"."s"."a'b"''\<close>
  by (simp add: EscapeString_def strings_Replace.simps backslash_def squote_def
      Create_def WithType_def FileFormat_def QualifiedName_def Show_def)

text \<open>
  Claim C6, amended: \<^verbatim>\<open>Create()\<close> passes the comment, the elements of the null-if list, the
  record and field delimiters, the file extension, the date, time and timestamp formats,
  the escape, escape-unenclosed-field and field-optionally-enclosed-by strings and the
  encoding through \<^verbatim>\<open>EscapeString\<close> before embedding them; the type, the compression and the
  binary format are embedded as they are.  That is, the statement is the one that embeds
  every value verbatim, built from the builder whose free-text properties were escaped.
\<close>

theorem create_escapes_free_text_properties:
  "Create fb = Create_verbatim (escapeProperties fb)"
  by (simp only: Create_render Create_verbatim_def render_def emitted_escapeProperties
      clause_escapeProperties QualifiedName_escapeProperties)

section \<open>Properties of the identifier codec\<close>

subsection \<open>Reading back what the writer wrote\<close>

lemma firstLine_Nil [simp]: "firstLine [] = []"
  by (simp add: firstLine_def)

lemma afterFirstLine_Nil [simp]: "afterFirstLine [] = []"
  by (simp add: afterFirstLine_def)

lemma firstLine_Cons [simp]: "c \<noteq> LF \<Longrightarrow> firstLine (c # X) = c # firstLine X"
  by (simp add: firstLine_def)

lemma firstLine_LF [simp]: "firstLine (LF # X) = [LF]"
  by (simp add: firstLine_def)

lemma afterFirstLine_Cons [simp]: "c \<noteq> LF \<Longrightarrow> afterFirstLine (c # X) = afterFirstLine X"
  by (simp add: afterFirstLine_def)

lemma afterFirstLine_LF [simp]: "afterFirstLine (LF # X) = X"
  by (simp add: afterFirstLine_def)

lemma firstLine_append [simp]: "LF \<notin> set f \<Longrightarrow> firstLine (f @ Y) = f @ firstLine Y"
  by (induction f) auto

lemma afterFirstLine_append [simp]: "LF \<notin> set f \<Longrightarrow> afterFirstLine (f @ Y) = afterFirstLine Y"
  by (induction f) auto

lemma firstLine_no_LF [simp]: "LF \<notin> set f \<Longrightarrow> firstLine f = f"
  by (simp add: firstLine_def)

lemma afterFirstLine_no_LF [simp]: "LF \<notin> set f \<Longrightarrow> afterFirstLine f = []"
  by (induction f) auto

lemma firstLine_eq_Nil [simp]: "firstLine X = [] \<longleftrightarrow> X = []"
  by (auto simp: firstLine_def)

lemma readLine_no_CR:
  "CR \<notin> set X \<Longrightarrow> readLine X = (firstLine X, X = [], afterFirstLine X)"
proof (cases "X = []")
  case True
  then show ?thesis by (simp add: readLine_def)
next
  case False
  assume cr: "CR \<notin> set X"
  show ?thesis
  proof (cases "LF \<in> set X")
    case True
    then have d: "dropWhile (\<lambda>c. c \<noteq> LF) X \<noteq> []"
      by (simp add: dropWhile_eq_Nil_conv)
    have "last (takeWhile (\<lambda>c. c \<noteq> LF) X) \<noteq> CR" if "takeWhile (\<lambda>c. c \<noteq> LF) X \<noteq> []"
      using that cr last_in_set set_takeWhileD by metis
    with False True d show ?thesis
      by (auto simp: readLine_def Let_def firstLine_def afterFirstLine_def)
  next
    case nolf: False
    then have t: "takeWhile (\<lambda>c. c \<noteq> LF) X = X" and d: "dropWhile (\<lambda>c. c \<noteq> LF) X = []"
      by (auto simp: takeWhile_eq_all_conv dropWhile_eq_Nil_conv)
    from False cr have "last X \<noteq> CR"
      using last_in_set by metis
    with False nolf show ?thesis
      unfolding readLine_def Let_def firstLine_def afterFirstLine_def t d by simp
  qed
qed

lemma quotedField_plain_step:
  assumes "c0 \<noteq> dquote" and "L \<noteq> []"
  shows "quotedField comma (c0 # L) R buf parsed = quotedField comma L R (buf @ [c0]) parsed"
proof (cases "dquote \<in> set L")
  case True
  with assms show ?thesis
    by (subst quotedField.simps, subst (2) quotedField.simps) (simp add: Let_def)
next
  case False
  with assms show ?thesis
    by (subst quotedField.simps, subst (2) quotedField.simps) (simp add: Let_def)
qed

lemma set_quotedBody [simp]: "set (quotedBody f) = set f"
  by (induction f) auto

lemma quotedField_body:
  assumes "CR \<notin> set f" and "CR \<notin> set tail"
    and "tail = [] \<or> hd tail = comma"
    and "comma \<noteq> dquote" and "comma \<noteq> LF"
  shows "quotedField comma (firstLine (quotedBody f @ dquote # tail))
           (afterFirstLine (quotedBody f @ dquote # tail)) buf parsed
         = (if tail = [] then (Inr (parsed @ [buf @ f]), [])
            else parseField comma (firstLine (tl tail)) (afterFirstLine (tl tail))
                   (parsed @ [buf @ f]))"
  using assms(1)
proof (induction f arbitrary: buf)
  case Nil
  have dl: "dquote \<noteq> LF"
    by (simp add: dquote_def LF_def)
  show ?case
  proof (cases tail)
    case Nil
    with dl show ?thesis
      by (subst quotedField.simps) (simp add: Let_def lengthNL_def)
  next
    case (Cons t ts)
    with assms(3) have "t = comma" by simp
    with Cons dl assms(4,5) show ?thesis
      by (subst quotedField.simps) (simp add: Let_def lengthNL_def)
  qed
next
  case (Cons c0 f)
  have dl: "dquote \<noteq> LF" and dc: "dquote \<noteq> CR"
    by (simp_all add: dquote_def LF_def CR_def)
  let ?X = "quotedBody f @ dquote # tail"
  from Cons.prems have cr: "CR \<notin> set f" and c0: "c0 \<noteq> CR"
    by auto
  have crX: "CR \<notin> set ?X"
    using cr assms(2) dc by auto
  consider (q) "c0 = dquote" | (lf) "c0 = LF" | (plain) "c0 \<noteq> dquote" "c0 \<noteq> LF"
    by blast
  then show ?case
  proof cases
    case q
    have "quotedField comma (firstLine (quotedBody (c0 # f) @ dquote # tail))
            (afterFirstLine (quotedBody (c0 # f) @ dquote # tail)) buf parsed
          = quotedField comma (firstLine ?X) (afterFirstLine ?X) (buf @ [dquote]) parsed"
      using q dl by (subst quotedField.simps) (simp add: Let_def)
    with Cons.IH [OF cr, of "buf @ [dquote]"] q show ?thesis
      by simp
  next
    case lf
    have "quotedField comma (firstLine (quotedBody (c0 # f) @ dquote # tail))
            (afterFirstLine (quotedBody (c0 # f) @ dquote # tail)) buf parsed
          = quotedField comma (firstLine ?X) (afterFirstLine ?X) (buf @ [LF]) parsed"
      using lf dl readLine_no_CR [OF crX] by (subst quotedField.simps) simp
    with Cons.IH [OF cr, of "buf @ [LF]"] lf show ?thesis
      by simp
  next
    case plain
    have "firstLine ?X \<noteq> []"
      by simp
    with plain quotedField_plain_step [of c0 "firstLine ?X" comma "afterFirstLine ?X" buf parsed]
    have "quotedField comma (firstLine (quotedBody (c0 # f) @ dquote # tail))
            (afterFirstLine (quotedBody (c0 # f) @ dquote # tail)) buf parsed
          = quotedField comma (firstLine ?X) (afterFirstLine ?X) (buf @ [c0]) parsed"
      by simp
    with Cons.IH [OF cr, of "buf @ [c0]"] show ?thesis
      by simp
  qed
qed

lemma parseField_quoted_start:
  "parseField comma (dquote # L) R parsed = quotedField comma L R [] parsed"
  by (subst parseField.simps) simp

lemma parseField_unquoted_more:
  assumes "dquote \<notin> set f" and "comma \<notin> set f" and "comma \<noteq> dquote"
  shows "parseField comma (f @ comma # L) R parsed = parseField comma L R (parsed @ [f])"
proof -
  have hd: "hd (f @ comma # L) \<noteq> dquote"
    using assms(1,3) by (cases f) auto
  have tw: "takeWhile (\<lambda>c. c \<noteq> comma) (f @ comma # L) = f"
    using assms(2) by (induction f) auto
  have dw: "dropWhile (\<lambda>c. c \<noteq> comma) (f @ comma # L) = comma # L"
    using assms(2) by (induction f) auto
  show ?thesis
    using assms hd tw dw by (subst parseField.simps) (simp add: Let_def)
qed

lemma parseField_unquoted_last:
  assumes "dquote \<notin> set f" and "comma \<notin> set f" and "LF \<notin> set f"
  shows "parseField comma f [] parsed = (Inr (parsed @ [f]), [])"
proof -
  have "f = [] \<or> hd f \<noteq> dquote"
    using assms(1) by (cases f) auto
  moreover have "lengthNL f = 0"
    using assms(3) by (metis last_in_set lengthNL_def)
  ultimately show ?thesis
    using assms by (subst parseField.simps) (auto simp: Let_def)
qed

lemma not_fieldNeedsQuotes:
  assumes "\<not> fieldNeedsQuotes comma f"
  shows "dquote \<notin> set f \<and> comma \<notin> set f \<and> LF \<notin> set f \<and> (f = [] \<or> \<not> startsWithSpace f)"
  using assms by (auto simp: fieldNeedsQuotes_def list_ex_iff split: if_splits)

lemma strings_Join_Cons:
  "ys \<noteq> [] \<Longrightarrow> strings_Join (x # ys) sep = x @ sep @ strings_Join ys sep"
  by (cases ys) simp_all

lemma set_strings_Join: "set (strings_Join xs sep) \<subseteq> \<Union> (set ` set xs) \<union> set sep"
  by (induction xs sep rule: strings_Join.induct) auto

lemma CR_notin_encodeRecord:
  assumes "\<forall>f \<in> set fs. CR \<notin> set f" and "comma \<noteq> CR"
  shows "CR \<notin> set (encodeRecord comma fs)"
proof -
  have "CR \<notin> set (writeField comma f)" if "f \<in> set fs" for f
    using that assms(1) by (auto simp: writeField_def dquote_def CR_def)
  with assms(2) set_strings_Join [of "map (writeField comma) fs" "[comma]"] show ?thesis
    by (auto simp: encodeRecord_def)
qed

lemma parseField_encodeRecord:
  assumes "fs \<noteq> []" and "\<forall>f \<in> set fs. CR \<notin> set f"
    and "comma \<noteq> dquote" and "comma \<noteq> LF" and "comma \<noteq> CR"
  shows "parseField comma (firstLine (encodeRecord comma fs))
           (afterFirstLine (encodeRecord comma fs)) parsed
         = (Inr (parsed @ fs), [])"
  using assms(1,2)
proof (induction fs arbitrary: parsed rule: list_nonempty_induct)
  case (single f)
  have dl: "dquote \<noteq> LF"
    by (simp add: dquote_def LF_def)
  show ?case
  proof (cases "fieldNeedsQuotes comma f")
    case False
    with not_fieldNeedsQuotes [OF False] show ?thesis
      by (auto simp: encodeRecord_def writeField_def parseField_unquoted_last)
  next
    case True
    from single have "CR \<notin> set f" by simp
    from quotedField_body [OF this, of "[]" comma "[]" parsed] assms(3,4) True dl show ?thesis
      by (simp add: encodeRecord_def writeField_def parseField_quoted_start)
  qed
next
  case (cons f fs)
  have dl: "dquote \<noteq> LF"
    by (simp add: dquote_def LF_def)
  let ?Y = "encodeRecord comma fs"
  have enc: "encodeRecord comma (f # fs) = writeField comma f @ comma # ?Y"
    using cons.hyps by (simp add: encodeRecord_def strings_Join_Cons)
  from cons.prems have crf: "CR \<notin> set f" and crfs: "\<forall>f \<in> set fs. CR \<notin> set f"
    by simp_all
  note IH = cons.IH [OF crfs]
  show ?case
  proof (cases "fieldNeedsQuotes comma f")
    case False
    with not_fieldNeedsQuotes [OF False] assms(3,4) IH [of "parsed @ [f]"] show ?thesis
      by (auto simp: enc writeField_def parseField_unquoted_more)
  next
    case True
    have "CR \<notin> set (comma # ?Y)"
      using CR_notin_encodeRecord [OF crfs assms(5)] assms(5) by simp
    from quotedField_body [OF crf this, of comma "[]" parsed] assms(3,4) True dl
      IH [of "parsed @ [f]"]
    show ?thesis
      by (simp add: enc writeField_def parseField_quoted_start)
  qed
qed

lemma firstLine_not_empty_line:
  assumes "X \<noteq> []" and "hd X \<noteq> LF"
  shows "length (firstLine X) \<noteq> lengthNL (firstLine X)"
proof -
  from assms obtain c X' where X: "X = c # X'" and c: "c \<noteq> LF"
    by (cases X) auto
  show ?thesis
  proof (cases "firstLine X' = []")
    case True
    with X c show ?thesis by (simp add: lengthNL_def)
  next
    case False
    then have "length (firstLine X) \<ge> 2"
      using X c by (cases "firstLine X'") simp_all
    moreover have "lengthNL (firstLine X) \<le> 1"
      by (simp add: lengthNL_def)
    ultimately show ?thesis by linarith
  qed
qed

lemma encodeRecord_head:
  assumes "length fs \<ge> 2" and "comma \<noteq> LF"
  shows "encodeRecord comma fs \<noteq> [] \<and> hd (encodeRecord comma fs) \<noteq> LF"
proof -
  from assms(1) obtain f g gs where fs: "fs = f # g # gs"
    by (cases fs; cases "tl fs") auto
  have dl: "dquote \<noteq> LF"
    by (simp add: dquote_def LF_def)
  have enc: "encodeRecord comma fs = writeField comma f @ comma # encodeRecord comma (g # gs)"
    by (simp add: fs encodeRecord_def)
  show ?thesis
  proof (cases "fieldNeedsQuotes comma f")
    case True
    with dl show ?thesis by (simp add: enc writeField_def)
  next
    case False
    with not_fieldNeedsQuotes [OF False] assms(2) show ?thesis
      by (cases f) (auto simp: enc writeField_def)
  qed
qed

lemma nextLine_Nil: "nextLine [] = ([], True, [])"
  by (subst nextLine.simps) (simp add: readLine_def)

lemma csv_ReadAll_encodeRecord:
  assumes "length fs \<ge> 2" and "\<forall>f \<in> set fs. CR \<notin> set f" and "validDelim comma"
  shows "csv_ReadAll comma (encodeRecord comma fs) = Inr [fs]"
proof -
  let ?X = "encodeRecord comma fs"
  from assms(3) have c: "comma \<noteq> dquote" "comma \<noteq> LF" "comma \<noteq> CR"
    by (simp_all add: validDelim_def)
  from assms(1) have ne: "fs \<noteq> []" by auto
  have cr: "CR \<notin> set ?X"
    by (rule CR_notin_encodeRecord [OF assms(2) c(3)])
  from encodeRecord_head [OF assms(1) c(2)] have X: "?X \<noteq> []" "hd ?X \<noteq> LF"
    by simp_all
  have nl: "nextLine ?X = (firstLine ?X, False, afterFirstLine ?X)"
    using readLine_no_CR [OF cr] X firstLine_not_empty_line [OF X]
    by (subst nextLine.simps) simp
  have r1: "readRecord comma 0 ?X = (Inr fs, length fs, [])"
    using assms(3) nl parseField_encodeRecord [OF ne assms(2) c, of "[]"]
    by (simp add: readRecord_def)
  have r2: "readRecord comma (length fs) [] = (Inl io_EOF, length fs, [])"
    using assms(3) by (simp add: readRecord_def nextLine_Nil)
  show ?thesis
    unfolding csv_ReadAll_def
    by (subst ReadAll_loop.simps, simp add: r1, subst ReadAll_loop.simps, simp add: r2)
qed

lemma csv_WriteAll_single:
  "validDelim comma \<Longrightarrow> csv_WriteAll comma [fs] = Inr (encodeRecord comma fs @ [LF])"
  by (simp add: csv_Write_def encodeRecord_def)

lemma strip_leading_no_match: "leading_match encs s = None \<Longrightarrow> strip_leading encs s = s"
  by (subst strip_leading.simps) simp

lemma leading_match_append_other:
  assumes "leading_match encs d = None" and "\<forall>e \<in> set encs. c \<notin> set e"
  shows "leading_match encs (d @ c # X) = None"
  using assms
proof (induction encs)
  case Nil
  show ?case by simp
next
  case (Cons e encs)
  from Cons.prems have ne: "\<not> (e \<noteq> [] \<and> prefix e d)" and c: "c \<notin> set e"
    and rest: "leading_match encs d = None" "\<forall>e \<in> set encs. c \<notin> set e"
    by (auto split: if_splits)
  have "\<not> prefix e (d @ c # X)" if "e \<noteq> []"
  proof
    assume "prefix e (d @ c # X)"
    then consider "prefix e d" | us where "e = d @ us" "prefix us (c # X)"
      by (auto simp: prefix_append)
    then show False
    proof cases
      case 1
      with ne that show False by simp
    next
      case 2
      show False
      proof (cases us)
        case Nil
        with 2 ne that show False by simp
      next
        case (Cons u us')
        with 2 have "u = c" by simp
        with 2 Cons c show False by simp
      qed
    qed
  qed
  with Cons.IH [OF rest] show ?case by auto
qed

lemma leading_match_Nil: "leading_match encs [] = None"
  by (induction encs) auto

lemma leading_match_Cons_other:
  "\<forall>e \<in> set encs. c \<notin> set e \<Longrightarrow> leading_match encs (c # X) = None"
  using leading_match_append_other [OF leading_match_Nil, of encs c X] by simp

lemma space_encodings_no_pipe:
  "\<forall>e \<in> set space_encodings. CHR ''|'' \<notin> set e"
  "\<forall>e \<in> set (map rev space_encodings). CHR ''|'' \<notin> set e"
  by (simp_all add: space_encodings_def)

lemma space_encodings_no_dquote:
  "\<forall>e \<in> set space_encodings. dquote \<notin> set e"
  "\<forall>e \<in> set (map rev space_encodings). dquote \<notin> set e"
  by (simp_all add: space_encodings_def dquote_def)

lemma leading_match_rev_LF: "leading_match (map rev space_encodings) (LF # Z) = Some [LF]"
  by (simp add: space_encodings_def LF_def)

lemma TrimSpace_encoded_id:
  assumes "fieldNeedsQuotes CHR ''|'' n \<or> \<not> endsWithSpace n"
  shows "strings_TrimSpace (encodeRecord CHR ''|'' [d, s, n] @ [LF]) = encodeRecord CHR ''|'' [d, s, n]"
proof -
  let ?w = "writeField CHR ''|''"
  let ?T = "encodeRecord CHR ''|'' [d, s, n]"
  let ?R = "map rev space_encodings"
  have T: "?T = ?w d @ CHR ''|'' # (?w s @ CHR ''|'' # ?w n)"
    by (simp add: encodeRecord_def)
  have left: "leading_match space_encodings (?T @ [LF]) = None"
  proof (cases "fieldNeedsQuotes CHR ''|'' d")
    case True
    then show ?thesis
      by (simp add: T writeField_def leading_match_Cons_other space_encodings_no_dquote)
  next
    case False
    from not_fieldNeedsQuotes [OF False] have "leading_match space_encodings d = None"
      by (auto simp: startsWithSpace_def leading_match_Nil)
    from leading_match_append_other [OF this space_encodings_no_pipe(1)] False show ?thesis
      by (simp add: T writeField_def)
  qed
  have revT: "rev ?T = rev (?w n) @ CHR ''|'' # rev (?w d @ CHR ''|'' # ?w s)"
    by (simp add: T)
  have right: "leading_match ?R (rev ?T) = None"
  proof (cases "fieldNeedsQuotes CHR ''|'' n")
    case True
    then show ?thesis
      by (simp add: revT writeField_def leading_match_Cons_other space_encodings_no_dquote
          del: rev_append rev.simps)
         (simp add: leading_match_Cons_other space_encodings_no_dquote)
  next
    case False
    with assms have "leading_match ?R (rev n) = None"
      by (simp add: endsWithSpace_def)
    from leading_match_append_other [OF this space_encodings_no_pipe(2)] False show ?thesis
      by (simp only: revT writeField_def if_True if_False simp_thms)
  qed
  have "strip_leading space_encodings (?T @ [LF]) = ?T @ [LF]"
    by (rule strip_leading_no_match [OF left])
  moreover have "strip_leading ?R (rev (?T @ [LF])) = strip_leading ?R (rev ?T)"
    by (subst strip_leading.simps) (simp add: leading_match_rev_LF del: leading_match.simps)
  moreover have "strip_leading ?R (rev ?T) = rev ?T"
    by (rule strip_leading_no_match [OF right])
  ultimately show ?thesis
    by (simp add: strings_TrimSpace_def)
qed

lemma validDelim_pipe: "validDelim CHR ''|''"
  by (simp add: validDelim_def dquote_def CR_def LF_def)

text \<open>
  The round trip holds for every identifier whose components contain no carriage return
  and whose name does not end with a space (unless the writer quotes the name).
\<close>

lemma id_round_trip:
  assumes "CR \<notin> set (DatabaseName fid)" and "CR \<notin> set (SchemaName fid)"
    and "CR \<notin> set (FileFormatName fid)"
    and "fieldNeedsQuotes fileFormatIDDelimiter (FileFormatName fid)
         \<or> \<not> endsWithSpace (FileFormatName fid)"
  shows "\<exists>s. fileFormatID_String fid = Inr s \<and> fileFormatIDFromString s = Inr fid"
proof -
  let ?fs = "[DatabaseName fid, SchemaName fid, FileFormatName fid]"
  let ?T = "encodeRecord CHR ''|'' ?fs"
  have "csv_WriteAll stageIDDelimiter [?fs] = Inr (?T @ [LF])"
    by (simp only: stageIDDelimiter_def csv_WriteAll_single [OF validDelim_pipe])
  moreover have "strings_TrimSpace (?T @ [LF]) = ?T"
    using assms(4) by (intro TrimSpace_encoded_id) (simp add: fileFormatIDDelimiter_def)
  ultimately have w: "fileFormatID_String fid = Inr ?T"
    by (simp only: fileFormatID_String_def sum.case)
  have "csv_ReadAll CHR ''|'' ?T = Inr [?fs]"
    using assms(1-3) by (intro csv_ReadAll_encodeRecord validDelim_pipe) simp_all
  then have r: "fileFormatIDFromString ?T = Inr fid"
    by (simp add: fileFormatIDFromString_def fileFormatIDDelimiter_def)
  from w r show ?thesis by blast
qed

subsection \<open>The round trip on concrete identifiers\<close>

text \<open>
  An identifier with a delimiter, a quote and a leading space in its components is quoted
  by the writer and read back unchanged.
\<close>

lemma id_round_trip_example:
  \<open>fileFormatID_String \<lparr>DatabaseName = ''d|b'', SchemaName = ''s"c'', FileFormatName = '' n''\<rparr>
     = Inr ''"d|b"|"s""c"|" n"''
   \<and> fileFormatIDFromString ''"d|b"|"s""c"|" n"''
     = Inr \<lparr>DatabaseName = ''d|b'', SchemaName = ''s"c'', FileFormatName = '' n''\<rparr>\<close>
  by code_simp

text \<open>
  Claim C1 says that for every triple (database, schema, name) that does not contain the
  delimiter unescaped, \<^verbatim>\<open>fileFormatIDFromString\<close> applied to the result of \<^verbatim>\<open>String()\<close> returns
  the triple.  The code does not do that for a name that ends with a space: the writer
  quotes a field for a leading space only, and \<^verbatim>\<open>strings.TrimSpace\<close>, applied to the buffer
  to remove the line feed, removes the space at the end of the name with it.  The name
  \<^verbatim>\<open>"n "\<close> is encoded as \<^verbatim>\<open>db|sc|n\<close> and decoded as \<^verbatim>\<open>"n"\<close>.
\<close>

theorem id_round_trip_loses_trailing_space:
  "fileFormatID_String \<lparr>DatabaseName = ''db'', SchemaName = ''sc'', FileFormatName = ''n ''\<rparr>
     = Inr ''db|sc|n''
   \<and> fileFormatIDFromString ''db|sc|n''
     = Inr \<lparr>DatabaseName = ''db'', SchemaName = ''sc'', FileFormatName = ''n''\<rparr>"
  by code_simp

section \<open>Properties of the result parser\<close>

subsection \<open>The null-if list\<close>

text \<open>
  An empty bracket list gives the nil list, and a bracketed list without quotes gives its
  elements, trimmed and unescaped.
\<close>

lemma parseNullIf_empty_brackets: "parseNullIf ''[]'' = None"
  by code_simp

lemma parseNullIf_unquoted_list:
  "parseNullIf (''['' @ [backslash, backslash] @ ''N, NULL, ]'')
   = Some [[backslash] @ ''N'', ''NULL'', []]"
  by code_simp

text \<open>
  Claim C5 says that the NULL_IF value is decoded by stripping the surrounding \<^verbatim>\<open>[\<close>, \<^verbatim>\<open>"\<close>
  and \<^verbatim>\<open>]\<close>, splitting at the commas, trimming and unescaping each element, so that the row
  value \<^verbatim>\<open>["\\N","NULL",""]\<close> decodes to the three elements \<^verbatim>\<open>\N\<close>, \<^verbatim>\<open>NULL\<close> and the empty
  string.  The code strips the three characters at the two ends of the whole value only:
  the quotes between the elements stay, and the row decodes to \<^verbatim>\<open>\N"\<close>, \<^verbatim>\<open>"NULL"\<close> and the
  empty string.
\<close>

theorem null_if_row_keeps_inner_quotes:
  \<open>DescFileFormat
     \<lparr> exec_response = (\<lambda>stmt. None),
       query_response = (\<lambda>stmt. Inr
         [Inr \<lparr> Property = ''NULL_IF'', PropertyType = ''List'',
                  PropertyValue = ''["'' @ [backslash, backslash] @ ''N","NULL",""]'',
                  PropertyDefault = ''["'' @ [backslash, backslash] @ ''N"]'' \<rparr>]),
       executed = [] \<rparr>
     ''DESCRIBE FILE FORMAT "d"."s"."n"''
   = (fileFormatData_zero\<lparr>NullIf := Some [[backslash] @ ''N"'', ''"NULL"'', []]\<rparr>, None)\<close>
  by code_simp

subsection \<open>Parse failures\<close>

lemma unparsable_descRow: "unparsable row \<Longrightarrow> isl (descRow row result)"
  unfolding unparsable_def booleanProperties_def
  by (auto simp: descRow_def split: sum.splits)

lemma descRows_unparsable:
  "Inr row \<in> set rows \<Longrightarrow> unparsable row \<Longrightarrow>
   fst (descRows rows result) = fileFormatData_zero \<and> snd (descRows rows result) \<noteq> None"
proof (induction rows arbitrary: result)
  case Nil
  then show ?case by simp
next
  case (Cons scanned rows)
  show ?case
  proof (cases scanned)
    case (Inl err)
    then show ?thesis by simp
  next
    case (Inr row')
    show ?thesis
    proof (cases "descRow row' result")
      case (Inl err)
      with Inr show ?thesis by simp
    next
      case r: (Inr result')
      with Inr Cons.prems unparsable_descRow [of row' result] have "Inr row \<in> set rows"
        by auto
      with Cons.IH Cons.prems(2) Inr r show ?thesis by simp
    qed
  qed
qed

text \<open>
  Claim C7: when the rows of the DESCRIBE result contain a row of a boolean or integer
  property whose value does not parse, \<^verbatim>\<open>DescFileFormat\<close> returns an error together with the
  zero-valued record; no partially populated record is returned.
\<close>

theorem desc_parse_failure_returns_zero_record:
  assumes "query_response sqldb query = Inr rows"
    and "Inr row \<in> set rows" and "unparsable row"
  shows "fst (DescFileFormat sqldb query) = fileFormatData_zero
         \<and> snd (DescFileFormat sqldb query) \<noteq> None"
  using assms descRows_unparsable [of row rows fileFormatData_zero]
  by (simp add: DescFileFormat_def Query_def)

theorem desc_parse_failure_returns_zero_record_witness:
  "query_response
     \<lparr> exec_response = (\<lambda>stmt. None),
       query_response = (\<lambda>stmt. Inr
         [Inr \<lparr> Property = ''TYPE'', PropertyType = ''String'',
                  PropertyValue = ''parquet'', PropertyDefault = ''CSV'' \<rparr>,
          Inr \<lparr> Property = ''TRIM_SPACE'', PropertyType = ''Boolean'',
                  PropertyValue = ''yes'', PropertyDefault = ''false'' \<rparr>]),
       executed = [] \<rparr> ''DESCRIBE FILE FORMAT''
   = Inr
         [Inr \<lparr> Property = ''TYPE'', PropertyType = ''String'',
                  PropertyValue = ''parquet'', PropertyDefault = ''CSV'' \<rparr>,
          Inr \<lparr> Property = ''TRIM_SPACE'', PropertyType = ''Boolean'',
                  PropertyValue = ''yes'', PropertyDefault = ''false'' \<rparr>]
   \<and> unparsable \<lparr> Property = ''TRIM_SPACE'', PropertyType = ''Boolean'',
                     PropertyValue = ''yes'', PropertyDefault = ''false'' \<rparr>
   \<and> fst (DescFileFormat
         \<lparr> exec_response = (\<lambda>stmt. None),
           query_response = (\<lambda>stmt. Inr
             [Inr \<lparr> Property = ''TYPE'', PropertyType = ''String'',
                      PropertyValue = ''parquet'', PropertyDefault = ''CSV'' \<rparr>,
              Inr \<lparr> Property = ''TRIM_SPACE'', PropertyType = ''Boolean'',
                      PropertyValue = ''yes'', PropertyDefault = ''false'' \<rparr>]),
           executed = [] \<rparr> ''DESCRIBE FILE FORMAT'') = fileFormatData_zero
   \<and> snd (DescFileFormat
         \<lparr> exec_response = (\<lambda>stmt. None),
           query_response = (\<lambda>stmt. Inr
             [Inr \<lparr> Property = ''TYPE'', PropertyType = ''String'',
                      PropertyValue = ''parquet'', PropertyDefault = ''CSV'' \<rparr>,
              Inr \<lparr> Property = ''TRIM_SPACE'', PropertyType = ''Boolean'',
                      PropertyValue = ''yes'', PropertyDefault = ''false'' \<rparr>]),
           executed = [] \<rparr> ''DESCRIBE FILE FORMAT'') \<noteq> None"
proof -
  let ?bad = "\<lparr> Property = ''TRIM_SPACE'', PropertyType = ''Boolean'',
                  PropertyValue = ''yes'', PropertyDefault = ''false'' \<rparr>"
  let ?rows = "[Inr \<lparr> Property = ''TYPE'', PropertyType = ''String'',
                  PropertyValue = ''parquet'', PropertyDefault = ''CSV'' \<rparr>, Inr ?bad]"
  let ?db = "\<lparr> exec_response = (\<lambda>stmt. None), query_response = (\<lambda>stmt. Inr ?rows),
               executed = [] \<rparr>"
  have q: "query_response ?db ''DESCRIBE FILE FORMAT'' = Inr ?rows"
    by simp
  have m: "Inr ?bad \<in> set ?rows"
    by simp
  have u: "unparsable ?bad"
    by (simp add: unparsable_def booleanProperties_def ParseBool_def)
  from q u desc_parse_failure_returns_zero_record [OF q m u] show ?thesis
    by simp
qed

subsection \<open>Unrecognized properties\<close>

lemma descRow_unrecognized:
  "Property row \<notin> set recognizedProperties \<Longrightarrow> descRow row result = Inr result"
  by (simp add: recognizedProperties_def descRow_def)

lemma descRows_filter_unrecognized:
  "descRows (filter (\<lambda>r. \<not> unrecognized r) rows) result = descRows rows result"
proof (induction rows arbitrary: result)
  case Nil
  show ?case by simp
next
  case (Cons scanned rows)
  show ?case
  proof (cases scanned)
    case (Inl err)
    then show ?thesis by (simp add: unrecognized_def)
  next
    case (Inr row)
    show ?thesis
    proof (cases "Property row \<in> set recognizedProperties")
      case True
      with Inr Cons.IH show ?thesis
        by (simp add: unrecognized_def split: sum.splits)
    next
      case False
      with Inr Cons.IH show ?thesis
        by (simp add: unrecognized_def descRow_unrecognized)
    qed
  qed
qed

text \<open>
  Claim C9: rows whose property name is not one of the recognized names leave the result
  unchanged: \<^verbatim>\<open>DescFileFormat\<close> returns the same for any rows as for the rows without the
  unrecognized ones.
\<close>

theorem desc_ignores_unrecognized_rows:
  "DescFileFormat (sqldb\<lparr>query_response := \<lambda>stmt. Inr rows\<rparr>) query
   = DescFileFormat
       (sqldb\<lparr>query_response := \<lambda>stmt. Inr (filter (\<lambda>r. \<not> unrecognized r) rows)\<rparr>) query"
  by (simp add: DescFileFormat_def Query_def descRows_filter_unrecognized)

section \<open>Properties of the delete operation\<close>

lemma decode_example:
  "fileFormatIDFromString ''db|sc|n''
   = Inr \<lparr>DatabaseName = ''db'', SchemaName = ''sc'', FileFormatName = ''n''\<rparr>"
  by code_simp

text \<open>
  Claim C8: a call of \<^verbatim>\<open>DeleteFileFormat\<close> either clears the identity and returns no error,
  or leaves the resource data as it was and returns an error; it returns no error exactly
  when the ID decodes and the DROP statement for it was executed without error; and when
  the execution of the DROP statement fails, the identity is as before the call and the
  error returned is the wrapped error of the execution.
\<close>

theorem delete_clears_identity_iff_drop_succeeds:
  assumes "DeleteFileFormat data sqldb = (data', sqldb', err)"
  shows "((data' = SetId [] data \<and> err = None) \<or> (data' = data \<and> err \<noteq> None))
    \<and> (err = None \<longleftrightarrow>
         (\<exists>fid. fileFormatIDFromString (ResourceData_Id data) = Inr fid
            \<and> executed sqldb' = executed sqldb
                 @ [Drop (FileFormat (FileFormatName fid) (DatabaseName fid) (SchemaName fid))]
            \<and> exec_response sqldb
                 (Drop (FileFormat (FileFormatName fid) (DatabaseName fid) (SchemaName fid)))
                = None))
    \<and> (\<forall>fid e. fileFormatIDFromString (ResourceData_Id data) = Inr fid
            \<and> exec_response sqldb
                 (Drop (FileFormat (FileFormatName fid) (DatabaseName fid) (SchemaName fid)))
                = Some e
          \<longrightarrow> data' = data
              \<and> err = Some (Wrapf e (''error deleting file format '' @ ResourceData_Id data)))"
proof (cases "fileFormatIDFromString (ResourceData_Id data)")
  case (Inl e)
  with assms show ?thesis
    by (auto simp: DeleteFileFormat_def)
next
  case (Inr fid)
  show ?thesis
  proof (cases "exec_response sqldb
      (Drop (FileFormat (FileFormatName fid) (DatabaseName fid) (SchemaName fid)))")
    case None
    with Inr assms show ?thesis
      by (auto simp: DeleteFileFormat_def Exec_def Let_def)
  next
    case (Some e)
    with Inr assms show ?thesis
      by (auto simp: DeleteFileFormat_def Exec_def Let_def)
  qed
qed

theorem delete_clears_identity_iff_drop_succeeds_witness:
  \<open>DeleteFileFormat \<lparr>resourceId = ''db|sc|n''\<rparr>
       \<lparr>exec_response = (\<lambda>stmt. None), query_response = (\<lambda>stmt. Inr []), executed = []\<rparr>
     = (\<lparr>resourceId = []\<rparr>,
        \<lparr>exec_response = (\<lambda>stmt. None), query_response = (\<lambda>stmt. Inr []),
          executed = [''DROP FILE FORMAT "db"."sc"."n"'']\<rparr>,
        None)
   \<and> \<lparr>resourceId = []\<rparr> = SetId [] \<lparr>resourceId = ''db|sc|n''\<rparr>
   \<and> DeleteFileFormat \<lparr>resourceId = ''db|sc|n''\<rparr>
       \<lparr>exec_response = (\<lambda>stmt. Some (DriverError ''insufficient privileges'')),
         query_response = (\<lambda>stmt. Inr []), executed = []\<rparr>
     = (\<lparr>resourceId = ''db|sc|n''\<rparr>,
        \<lparr>exec_response = (\<lambda>stmt. Some (DriverError ''insufficient privileges'')),
          query_response = (\<lambda>stmt. Inr []),
          executed = [''DROP FILE FORMAT "db"."sc"."n"'']\<rparr>,
        Some (Wrapf (DriverError ''insufficient privileges'')
                ''error deleting file format db|sc|n''))\<close>
proof -
  let ?data = "\<lparr>resourceId = ''db|sc|n''\<rparr>"
  let ?ok = "\<lparr>exec_response = (\<lambda>stmt. None),
               query_response = (\<lambda>stmt. Inr [] :: error + (error + descFileFormatRow) list),
               executed = []\<rparr>"
  let ?failing = "\<lparr>exec_response = (\<lambda>stmt. Some (DriverError ''insufficient privileges'')),
               query_response = (\<lambda>stmt. Inr [] :: error + (error + descFileFormatRow) list),
               executed = []\<rparr>"
  have h1: \<open>DeleteFileFormat ?data ?ok
      = (\<lparr>resourceId = []\<rparr>,
         \<lparr>exec_response = (\<lambda>stmt. None), query_response = (\<lambda>stmt. Inr []),
           executed = [''DROP FILE FORMAT "db"."sc"."n"'']\<rparr>,
         None)\<close>
    by (simp add: DeleteFileFormat_def ResourceData_Id_def decode_example Exec_def Drop_def
        QualifiedName_def FileFormat_def SetId_def)
  have h2: \<open>DeleteFileFormat ?data ?failing
      = (?data,
         \<lparr>exec_response = (\<lambda>stmt. Some (DriverError ''insufficient privileges'')),
           query_response = (\<lambda>stmt. Inr []),
           executed = [''DROP FILE FORMAT "db"."sc"."n"'']\<rparr>,
         Some (Wrapf (DriverError ''insufficient privileges'')
                 ''error deleting file format db|sc|n''))\<close>
    by (simp add: DeleteFileFormat_def ResourceData_Id_def decode_example Exec_def Drop_def
        QualifiedName_def FileFormat_def SetId_def)
  from delete_clears_identity_iff_drop_succeeds [OF h1]
    delete_clears_identity_iff_drop_succeeds [OF h2] h1 h2
  show ?thesis
    by (simp add: SetId_def)
qed

end
